theory Spec2Isabelle
  imports Main "HOL-Library.Word"
begin

unbundle bit_operations_syntax

section \<open>Python strings\<close>

text \<open>
  A Python \<open>str\<close> is modelled as a \<open>string\<close>; each \<open>char\<close> stands for one code point
  below 256. \<open>None\<close> is the \<open>None\<close> of an option type, and Python's truth test on an
  optional string (\<open>if local_path:\<close>) is \<open>truthy\<close>.
\<close>

definition startswith :: "string \<Rightarrow> string \<Rightarrow> bool" where
  "startswith s p = (take (length p) s = p)"

fun truthy :: "string option \<Rightarrow> bool" where
  "truthy None = False"
| "truthy (Some s) = (s \<noteq> [])"

definition py_isspace :: "char \<Rightarrow> bool" where
  "py_isspace c = (let n = (of_char c :: nat) in
     (9 \<le> n \<and> n \<le> 13) \<or> (28 \<le> n \<and> n \<le> 32) \<or> n = 133 \<or> n = 160)"

definition py_strip :: "string \<Rightarrow> string" where
  "py_strip s = rev (dropWhile py_isspace (rev (dropWhile py_isspace s)))"

text \<open>\<open>s.split(sep)[0]\<close> for a one-character separator.\<close>

definition split_first :: "char \<Rightarrow> string \<Rightarrow> string" where
  "split_first sep s = takeWhile (\<lambda>c. c \<noteq> sep) s"

text \<open>\<open>os.path.basename\<close> (posixpath): what follows the last slash.\<close>

definition basename :: "string \<Rightarrow> string" where
  "basename p = rev (takeWhile (\<lambda>c. c \<noteq> CHR ''/'') (rev p))"

text \<open>
  \<open>os.path.splitext\<close> (posixpath), second component: the suffix from the last dot of the
  last path component, empty when that component has no dot or only leading dots
  before it.
\<close>

definition splitext_ext :: "string \<Rightarrow> string" where
  "splitext_ext p = (let b = basename p; stem = dropWhile (\<lambda>c. c = CHR ''.'') b in
     if stem = [] \<or> CHR ''.'' \<notin> set stem then []
     else CHR ''.'' # rev (takeWhile (\<lambda>c. c \<noteq> CHR ''.'') (rev stem)))"

text \<open>\<open>re.sub(r'[^a-zA-Z0-9_-]', '_', s)\<close>.\<close>

definition name_char :: "char \<Rightarrow> bool" where
  "name_char c = (let n = (of_char c :: nat) in
     (97 \<le> n \<and> n \<le> 122) \<or> (65 \<le> n \<and> n \<le> 90) \<or> (48 \<le> n \<and> n \<le> 57)
     \<or> c = CHR ''_'' \<or> c = CHR ''-'')"

definition sanitize :: "string \<Rightarrow> string" where
  "sanitize s = map (\<lambda>c. if name_char c then c else CHR ''_'') s"

section \<open>The job and its surroundings\<close>

text \<open>
  Exceptions are values. \<open>ValueError\<close> is what \<open>urllib.parse\<close> raises on a malformed
  reference, \<open>OSError\<close> what \<open>shutil\<close> and \<open>os\<close> raise, and \<open>BrowserError\<close> stands for
  any exception of the browser automation.
\<close>

datatype exn = ValueError | OSError | BrowserError

text \<open>The outcome of \<open>session.get(url, timeout=15, verify=False)\<close>:
  an exception (time-out, transport error) or a response with its status code, body and
  \<open>content-type\<close> header (empty when absent).\<close>

datatype http_result = HttpRaises | HttpResponse int string string

text \<open>
  What the code obtains from libraries and from the network is a parameter of the model:
  \<open>urljoin\<close> and the path of \<open>urlparse\<close> (\<open>urllib.parse\<close>; both raise \<open>ValueError\<close> on
  some malformed input), the hexadecimal MD5 digest of the encoded URL (\<open>hashlib\<close>),
  \<open>mimetypes.guess_extension\<close>, and the fallback HTTP client, whose answer may differ
  from one request to the next (the first argument is the number of requests the job
  has sent before).
\<close>

record world =
  urljoin :: "string \<Rightarrow> string \<Rightarrow> exn + string"
  urlparse_path :: "string \<Rightarrow> exn + string"
  md5_hexdigest :: "string \<Rightarrow> string"
  guess_extension :: "string \<Rightarrow> string option"
  session_get :: "nat \<Rightarrow> string \<Rightarrow> http_result"

text \<open>The file system: a path is the list of its components.\<close>

datatype node = Dir | File string

type_synonym path = "string list"
type_synonym disk = "path \<rightharpoonup> node"

text \<open>
  The fields of \<open>WebsiteDownloader\<close>, together with the disk the job writes to and the
  log of the requests it has sent through the fallback client.
\<close>

record downloader =
  url :: string
  output_dir :: path
  assets_dir :: path
  resource_cache :: "string \<rightharpoonup> string"
  network_resources :: "string \<rightharpoonup> (string \<times> string)"
  base_url :: string
  files :: disk
  requests :: "string list"

subsection \<open>\<open>__init__\<close>\<close>

definition is_under :: "path \<Rightarrow> path \<Rightarrow> bool" where
  "is_under d p = (take (length d) p = d)"

text \<open>\<open>shutil.rmtree\<close>: removes a directory and all below it; raises on anything else.\<close>

definition rmtree :: "path \<Rightarrow> disk \<Rightarrow> exn + disk" where
  "rmtree d fs = (case fs d of
       Some Dir \<Rightarrow> Inr (\<lambda>p. if is_under d p then None else fs p)
     | _ \<Rightarrow> Inl OSError)"

text \<open>\<open>os.makedirs\<close> without \<open>exist_ok\<close>: creates the missing ancestors, then the leaf,
  which must not exist; an ancestor that is a file is an error.\<close>

fun make_ancestors :: "path \<Rightarrow> string list \<Rightarrow> disk \<Rightarrow> exn + disk" where
  "make_ancestors pre [] fs = Inr fs"
| "make_ancestors pre (c # cs) fs =
     (case fs (pre @ [c]) of
        Some (File _) \<Rightarrow> Inl OSError
      | Some Dir \<Rightarrow> make_ancestors (pre @ [c]) cs fs
      | None \<Rightarrow> make_ancestors (pre @ [c]) cs (fs(pre @ [c] \<mapsto> Dir)))"

definition makedirs :: "path \<Rightarrow> disk \<Rightarrow> exn + disk" where
  "makedirs p fs = (case make_ancestors [] (butlast p) fs of
       Inl e \<Rightarrow> Inl e
     | Inr fs' \<Rightarrow> (if p = [] \<or> fs' p \<noteq> None then Inl OSError else Inr (fs'(p \<mapsto> Dir))))"

definition init :: "string \<Rightarrow> path \<Rightarrow> disk \<Rightarrow> exn + downloader" where
  "init u out fs =
     (case (if fs out \<noteq> None then rmtree out fs else Inr fs) of
        Inl e \<Rightarrow> Inl e
      | Inr fs1 \<Rightarrow>
         (case makedirs (out @ [''assets'']) fs1 of
            Inl e \<Rightarrow> Inl e
          | Inr fs2 \<Rightarrow> Inr \<lparr> url = u, output_dir = out, assets_dir = out @ [''assets''],
              resource_cache = Map.empty, network_resources = Map.empty, base_url = u,
              files = fs2, requests = [] \<rparr>))"

subsection \<open>File names\<close>

definition get_extension :: "world \<Rightarrow> string \<Rightarrow> string \<Rightarrow> exn + string" where
  "get_extension w u content_type =
     (case urlparse_path w u of
        Inl e \<Rightarrow> Inl e
      | Inr path \<Rightarrow>
         (let ext = splitext_ext path in
          if ext \<noteq> [] \<and> length ext \<le> 6 then Inr ext
          else if content_type \<noteq> [] then
            (case guess_extension w (py_strip (split_first CHR '';'' content_type)) of
               Some guessed \<Rightarrow> (if guessed \<noteq> [] then Inr guessed else Inr [])
             | None \<Rightarrow> Inr [])
          else Inr []))"

text \<open>The name part of a file name, from the path of the URL (lines 58 to 62).\<close>

definition resource_name :: "string \<Rightarrow> string" where
  "resource_name path =
     (let name = basename path in
      if name \<noteq> [] then take 30 (sanitize (split_first CHR ''.'' name)) else ''resource'')"

definition generate_filename :: "world \<Rightarrow> string \<Rightarrow> string \<Rightarrow> exn + string" where
  "generate_filename w u content_type =
     (case get_extension w u content_type of
        Inl e \<Rightarrow> Inl e
      | Inr ext \<Rightarrow>
         (let url_hash = take 12 (md5_hexdigest w u) in
          case urlparse_path w u of
            Inl e \<Rightarrow> Inl e
          | Inr path \<Rightarrow> Inr (resource_name path @ ''_'' @ url_hash @ ext)))"

subsection \<open>The resource store and the resolver\<close>

definition save_resource ::
  "world \<Rightarrow> downloader \<Rightarrow> string \<Rightarrow> string \<Rightarrow> string
     \<Rightarrow> exn + (string option \<times> downloader)" where
  "save_resource w d u content content_type =
     (case resource_cache d u of
        Some p \<Rightarrow> Inr (Some p, d)
      | None \<Rightarrow>
         (if content = [] then Inr (None, d)
          else
            (case generate_filename w u content_type of
               Inl e \<Rightarrow> Inl e
             | Inr filename \<Rightarrow>
                (let rel_path = ''assets/'' @ filename
                 in Inr (Some rel_path,
                      d\<lparr> files := (files d)(assets_dir d @ [filename] \<mapsto> File content),
                         resource_cache := (resource_cache d)(u \<mapsto> rel_path) \<rparr>)))))"

definition not_fetchable :: "string \<Rightarrow> bool" where
  "not_fetchable u = (u = [] \<or> startswith u ''data:'' \<or> startswith u ''blob:'' \<or> startswith u ''#'')"

text \<open>The \<open>try\<close> of \<open>_download_fallback\<close> swallows every exception raised in it.\<close>

definition download_fallback ::
  "world \<Rightarrow> downloader \<Rightarrow> string \<Rightarrow> string option \<times> downloader" where
  "download_fallback w d u =
     (case resource_cache d u of
        Some p \<Rightarrow> (Some p, d)
      | None \<Rightarrow>
         (if not_fetchable u then (Some u, d)
          else let d1 = d\<lparr> requests := requests d @ [u] \<rparr> in
            (case session_get w (length (requests d)) u of
               HttpRaises \<Rightarrow> (None, d1)
             | HttpResponse status_code content content_type \<Rightarrow>
                 (if status_code = 200 then
                    (case save_resource w d1 u content content_type of
                       Inl e \<Rightarrow> (None, d1)
                     | Inr r \<Rightarrow> r)
                  else (None, d1)))))"

text \<open>\<open>base or self.base_url\<close>.\<close>

fun base_or :: "string option \<Rightarrow> string \<Rightarrow> string" where
  "base_or None dflt = dflt"
| "base_or (Some b) dflt = (if b \<noteq> [] then b else dflt)"

definition get_resource ::
  "world \<Rightarrow> downloader \<Rightarrow> string \<Rightarrow> string option \<Rightarrow> exn + (string option \<times> downloader)" where
  "get_resource w d u base =
     (if not_fetchable u then Inr (Some u, d)
      else
        (case urljoin w (base_or base (base_url d)) u of
           Inl e \<Rightarrow> Inl e
         | Inr abs_url \<Rightarrow>
            (case resource_cache d abs_url of
               Some p \<Rightarrow> Inr (Some p, d)
             | None \<Rightarrow>
                (case network_resources d abs_url of
                   Some (body, content_type) \<Rightarrow> save_resource w d abs_url body content_type
                 | None \<Rightarrow>
                    (case download_fallback w d abs_url of
                       (local_path, d') \<Rightarrow>
                         (if truthy local_path then Inr (local_path, d')
                          else Inr (Some u, d')))))))"

section \<open>Rewriting references\<close>

text \<open>
  An element of the document tree: its tag name and its attributes. The passes below
  visit elements one by one and change attributes in place.
\<close>

record element =
  tag :: string
  attrs :: "string \<rightharpoonup> string"

subsection \<open>\<open>url()\<close> tokens in style sheets\<close>

text \<open>
  One match of \<open>url\(\s*([^)]+)\s*\)\<close> at the head of the text: the whole match, group 1
  and the text after the match. The pattern needs a closing parenthesis and at least
  one character before it; the first \<open>\s*\<close> is greedy, so group 1 starts at the first
  character that is not white space, and is the last white-space character when there is
  no other.
\<close>

definition match_url_token :: "string \<Rightarrow> (string \<times> string \<times> string) option" where
  "match_url_token s =
     (if startswith s ''url('' then
        (let body = drop 4 s;
             inner = takeWhile (\<lambda>c. c \<noteq> CHR '')'') body;
             after = dropWhile (\<lambda>c. c \<noteq> CHR '')'') body
         in if after = [] \<or> inner = [] then None
            else Some (''url('' @ inner @ '')'',
                       (if dropWhile py_isspace inner = [] then [last inner]
                        else dropWhile py_isspace inner),
                       tl after))
      else None)"

definition is_quote :: "char \<Rightarrow> bool" where
  "is_quote c = (c = CHR 0x27 \<or> c = CHR 0x22)"

text \<open>The quotes around a token are removed when it begins and ends with one.\<close>

definition unquote :: "string \<Rightarrow> string" where
  "unquote s = (if s \<noteq> [] \<and> is_quote (hd s) \<and> is_quote (last s) then butlast (tl s) else s)"

definition replacer ::
  "world \<Rightarrow> downloader \<Rightarrow> string \<Rightarrow> string \<Rightarrow> string \<Rightarrow> exn + (string \<times> downloader)" where
  "replacer w d css_url full_match group1 =
     (let url_content = unquote (py_strip group1) in
      if url_content = [] \<or> startswith url_content ''data:'' then Inr (full_match, d)
      else
        (case urljoin w css_url url_content of
           Inl e \<Rightarrow> Inl e
         | Inr abs_url \<Rightarrow>
            (case get_resource w d abs_url None of
               Inl e \<Rightarrow> Inl e
             | Inr (None, d') \<Rightarrow> Inr (full_match, d')
             | Inr (Some local_path, d') \<Rightarrow>
                 (if local_path \<noteq> [] \<and> startswith local_path ''assets/''
                  then Inr (''url('' @ [CHR 0x22] @ basename local_path @ [CHR 0x22] @ '')'', d')
                  else Inr (full_match, d')))))"

text \<open>\<open>re.sub\<close> with \<open>replacer\<close>: leftmost matches, the text after a match scanned on.\<close>

function rewrite_css_urls ::
  "world \<Rightarrow> downloader \<Rightarrow> string \<Rightarrow> string \<Rightarrow> exn + (string \<times> downloader)" where
  "rewrite_css_urls w d [] css_url = Inr ([], d)"
| "rewrite_css_urls w d (c # cs) css_url =
     (case match_url_token (c # cs) of
        None \<Rightarrow>
          (case rewrite_css_urls w d cs css_url of
             Inl e \<Rightarrow> Inl e
           | Inr (out, d') \<Rightarrow> Inr (c # out, d'))
      | Some (full_match, group1, rest) \<Rightarrow>
          (case replacer w d css_url full_match group1 of
             Inl e \<Rightarrow> Inl e
           | Inr (rep, d1) \<Rightarrow>
              (case rewrite_css_urls w d1 rest css_url of
                 Inl e \<Rightarrow> Inl e
               | Inr (out, d2) \<Rightarrow> Inr (rep @ out, d2))))"
  by pat_completeness auto
termination
proof (relation "measure (\<lambda>(w, d, s, u). length s)")
  fix c :: char and cs :: string and x :: "string \<times> string \<times> string"
    and full_match :: string and y :: "string \<times> string" and group1 rest :: string
  assume m: "match_url_token (c # cs) = Some x" and x: "(full_match, y) = x"
    and y: "(group1, rest) = y"
  let ?after = "dropWhile (\<lambda>c. c \<noteq> CHR '')'') (drop 4 (c # cs))"
  from m x y have r: "rest = tl ?after" and ne: "?after \<noteq> []"
    by (auto simp: match_url_token_def Let_def split: if_splits)
  have "length ?after \<le> length (drop 4 (c # cs))" by (rule length_dropWhile_le)
  moreover from ne have "length (tl ?after) < length ?after" by (cases ?after) auto
  ultimately have "length rest < length (c # cs)" using r by simp
  then show "((w, d1, rest, css_url), (w, d, c # cs, css_url)) \<in> measure (\<lambda>(w, d, s, u). length s)"
    for w :: world and d d1 :: downloader and css_url :: string
    by simp
qed auto

subsection \<open>Style-sheet links\<close>

text \<open>
  One \<open>link rel="stylesheet"\<close> element. The sheet's text is the captured body, or, when
  there is none or it is empty, the body of a request sent through the fallback client
  (whose errors are swallowed). Bodies are taken as ASCII text, which \<open>decode\<close> and
  \<open>encode\<close> leave as it is.
\<close>

definition fetch_css :: "world \<Rightarrow> downloader \<Rightarrow> string \<Rightarrow> string option \<times> downloader" where
  "fetch_css w d abs_url =
     (let d1 = d\<lparr> requests := requests d @ [abs_url] \<rparr> in
      case session_get w (length (requests d)) abs_url of
        HttpRaises \<Rightarrow> (None, d1)
      | HttpResponse status_code content content_type \<Rightarrow>
          (if status_code = 200 then (Some content, d1) else (None, d1)))"

definition process_stylesheet_link ::
  "world \<Rightarrow> downloader \<Rightarrow> element \<Rightarrow> exn + (element \<times> downloader)" where
  "process_stylesheet_link w d link =
     (case attrs link ''href'' of
        None \<Rightarrow> Inr (link, d)
      | Some href \<Rightarrow>
         (if href = [] \<or> startswith href ''data:'' then Inr (link, d)
          else
            (case urljoin w (base_url d) href of
               Inl e \<Rightarrow> Inl e
             | Inr abs_url \<Rightarrow>
                (let captured = (case network_resources d abs_url of
                                   Some (body, content_type) \<Rightarrow> Some body
                                 | None \<Rightarrow> None);
                     (css_content, d1) = (if truthy captured then (captured, d)
                                          else fetch_css w d abs_url)
                 in case css_content of
                      None \<Rightarrow> Inr (link, d1)
                    | Some css \<Rightarrow>
                       (if css = [] then Inr (link, d1)
                        else
                          (case rewrite_css_urls w d1 css abs_url of
                             Inl e \<Rightarrow> Inl e
                           | Inr (css', d2) \<Rightarrow>
                              (case save_resource w d2 abs_url css' ''text/css'' of
                                 Inl e \<Rightarrow> Inl e
                               | Inr (None, d3) \<Rightarrow> Inr (link, d3)
                               | Inr (Some local_path, d3) \<Rightarrow>
                                   (if local_path \<noteq> []
                                    then Inr (link\<lparr> attrs := (attrs link)(''href'' \<mapsto> local_path) \<rparr>, d3)
                                    else Inr (link, d3)))))))))"

subsection \<open>Media elements\<close>

definition lazy_attributes :: "string list" where
  "lazy_attributes =
     [''data-src'', ''data-original'', ''data-lazy-src'', ''data-url'', ''data-image'', ''data-bg'']"

text \<open>
  The loop over the lazy-loading attributes. It stops (\<open>break\<close>) at the first attribute
  whose value is not empty, and yields the element, the value of \<open>src\<close> still to be
  processed (\<open>None\<close> once handled) and the job.
\<close>

fun lazy_loop ::
  "world \<Rightarrow> downloader \<Rightarrow> element \<Rightarrow> string option \<Rightarrow> string list
     \<Rightarrow> exn + (element \<times> string option \<times> downloader)" where
  "lazy_loop w d elem src [] = Inr (elem, src, d)"
| "lazy_loop w d elem src (attr # rest) =
     (case attrs elem attr of
        None \<Rightarrow> lazy_loop w d elem src rest
      | Some lazy_src \<Rightarrow>
         (if lazy_src = [] then lazy_loop w d elem src rest
          else
            (case get_resource w d lazy_src None of
               Inl e \<Rightarrow> Inl e
             | Inr (local_path, d') \<Rightarrow>
                 (if truthy local_path \<and> local_path \<noteq> Some lazy_src
                  then Inr (elem\<lparr> attrs := ((attrs elem)(''src'' := local_path))(attr := None) \<rparr>,
                            None, d')
                  else Inr (elem, src, d')))))"

text \<open>Lines 609 to 625 of the pass over \<open>img\<close>, \<open>source\<close>, \<open>video\<close>, \<open>audio\<close>, \<open>picture\<close>
  and \<open>input\<close> elements: the lazy attributes, then \<open>src\<close>.\<close>

definition process_media_src ::
  "world \<Rightarrow> downloader \<Rightarrow> element \<Rightarrow> exn + (element \<times> downloader)" where
  "process_media_src w d elem =
     (case lazy_loop w d elem (attrs elem ''src'') lazy_attributes of
        Inl e \<Rightarrow> Inl e
      | Inr (elem1, src, d1) \<Rightarrow>
         (case src of
            None \<Rightarrow> Inr (elem1, d1)
          | Some s \<Rightarrow>
             (if s \<noteq> [] \<and> \<not> startswith s ''data:'' then
                (case get_resource w d1 s None of
                   Inl e \<Rightarrow> Inl e
                 | Inr (local_path, d2) \<Rightarrow>
                     (if truthy local_path \<and> local_path \<noteq> Some s
                      then Inr (elem1\<lparr> attrs := (attrs elem1)(''src'' := local_path) \<rparr>, d2)
                      else Inr (elem1, d2)))
              else Inr (elem1, d1))))"

subsection \<open>Navigation anchors\<close>

text \<open>One \<open>a\<close> element with an \<open>href\<close> attribute, as the loop of step 9 treats it.\<close>

definition fix_navigation_link :: "element \<Rightarrow> element" where
  "fix_navigation_link a =
     (case attrs a ''href'' of
        None \<Rightarrow> a
      | Some href \<Rightarrow>
         (if href = ''/'' then a\<lparr> attrs := (attrs a)(''href'' \<mapsto> ''#'') \<rparr>
          else if startswith href ''/'' \<and> \<not> startswith href ''//''
          then a\<lparr> attrs := (attrs a)(''href'' \<mapsto> ''#'') \<rparr>
          else a))"

definition fix_navigation_links :: "element list \<Rightarrow> element list" where
  "fix_navigation_links doc =
     map (\<lambda>e. if tag e = ''a'' \<and> attrs e ''href'' \<noteq> None then fix_navigation_link e else e) doc"

section \<open>The scroll probe\<close>

definition max_iterations :: nat where
  "max_iterations = 20"

text \<open>
  The \<open>while\<close> loop of \<open>_scroll_page\<close>. The page is a function of the iteration: the height
  it reports when measured again after the scroll, or \<open>None\<close> when a call to the browser
  raises during the iteration, which ends the loop. The result lists the positions
  scrolled to, one for each iteration begun.
\<close>

function scroll_loop :: "(nat \<Rightarrow> int option) \<Rightarrow> int \<Rightarrow> int \<Rightarrow> int \<Rightarrow> nat \<Rightarrow> int list" where
  "scroll_loop page viewport_height current total_height iteration =
     (if current < total_height \<and> iteration < max_iterations then
        current #
        (case page iteration of
           None \<Rightarrow> []
         | Some new_height \<Rightarrow>
             scroll_loop page viewport_height (current + viewport_height)
               (if new_height > total_height then new_height else total_height)
               (iteration + 1))
      else [])"
  by pat_completeness auto
termination
  by (relation "measure (\<lambda>(page, vh, current, total, iteration). max_iterations - iteration)")
     auto

text \<open>\<open>_scroll_page\<close>: the first measurements (\<open>None\<close> when a call before the loop raises,
  which the enclosing \<open>try\<close> swallows), then the loop from position 0.\<close>

definition scroll_page :: "(int \<times> int) option \<Rightarrow> (nat \<Rightarrow> int option) \<Rightarrow> int list" where
  "scroll_page measured page =
     (case measured of
        None \<Rightarrow> []
      | Some (total_height, viewport_height) \<Rightarrow> scroll_loop page viewport_height 0 total_height 0)"

section \<open>The operations of a job, in sequence\<close>

text \<open>
  The document passes call the resource store and the resolver in some order. An
  \<open>operation\<close> is one such call; \<open>run_ops\<close> runs a list of them, stopping at the first
  exception.
\<close>

datatype operation =
    Resolve string "string option"
  | Save string string string
  | RewriteCss string string
  | StylesheetLink element
  | MediaSrc element

fun run_op :: "world \<Rightarrow> downloader \<Rightarrow> operation \<Rightarrow> exn + downloader" where
  "run_op w d (Resolve u base) = map_sum id snd (get_resource w d u base)"
| "run_op w d (Save u content content_type) = map_sum id snd (save_resource w d u content content_type)"
| "run_op w d (RewriteCss css css_url) = map_sum id snd (rewrite_css_urls w d css css_url)"
| "run_op w d (StylesheetLink link) = map_sum id snd (process_stylesheet_link w d link)"
| "run_op w d (MediaSrc elem) = map_sum id snd (process_media_src w d elem)"

fun run_ops :: "world \<Rightarrow> downloader \<Rightarrow> operation list \<Rightarrow> exn + downloader" where
  "run_ops w d [] = Inr d"
| "run_ops w d (x # xs) = (case run_op w d x of Inl e \<Rightarrow> Inl e | Inr d' \<Rightarrow> run_ops w d' xs)"

section \<open>The job as a whole\<close>

text \<open>
  What the browser automation does during one run of \<open>process\<close>, call by call: whether
  start-up (\<open>sync_playwright\<close>, \<open>launch\<close>, \<open>new_context\<close>, \<open>new_page\<close>) succeeds, whether
  \<open>page.goto\<close> returns or raises, the responses captured, \<open>page.url\<close>, whether the waits
  return, what \<open>_extract_iframe_content\<close> yields (the content and the flag it returns
  and the base URL it sets, or an exception), the measurements of the scroll probe,
  whether \<open>context.cookies\<close> returns, what \<open>page.content\<close> returns (\<open>None\<close>: it raises, no
  document content can be obtained), and whether \<open>browser.close\<close> returns.
\<close>

record browser =
  b_start :: bool
  b_goto :: bool
  b_captured :: "string \<rightharpoonup> (string \<times> string)"
  b_url :: string
  b_wait :: bool
  b_iframe :: "exn + ((string option \<times> bool) \<times> string option)"
  b_measured :: "(int \<times> int) option"
  b_page :: "nat \<Rightarrow> int option"
  b_cookies :: bool
  b_content :: "string option"
  b_close :: bool

text \<open>
  Lines 455 to 534. The exception of \<open>page.goto\<close> is caught (line 495) and
  \<open>_scroll_page\<close> catches its own (line 874), so neither outcome is looked at; every
  other call that raises ends \<open>process\<close> with that exception.
\<close>

definition browser_phase :: "browser \<Rightarrow> downloader \<Rightarrow> exn + (string \<times> downloader)" where
  "browser_phase b d =
     (if \<not> b_start b then Inl BrowserError
      else
        (let loaded = b_goto b;
             d1 = d\<lparr> network_resources := b_captured b, base_url := b_url b \<rparr>
         in if \<not> b_wait b then Inl BrowserError
            else
              (case b_iframe b of
                 Inl e \<Rightarrow> Inl e
               | Inr ((iframe_content, is_iframe), new_base) \<Rightarrow>
                  (let d2 = (case new_base of None \<Rightarrow> d1 | Some u \<Rightarrow> d1\<lparr> base_url := u \<rparr>);
                       scrolled = (if \<not> is_iframe then scroll_page (b_measured b) (b_page b) else [])
                   in if \<not> b_cookies b then Inl BrowserError
                      else
                        (case (if is_iframe \<and> truthy iframe_content then iframe_content
                               else b_content b) of
                           None \<Rightarrow> Inl BrowserError
                         | Some html_content \<Rightarrow>
                             (if \<not> b_close b then Inl BrowserError
                              else Inr (html_content, d2)))))))"

text \<open>
  \<open>process\<close>. The passes over the parsed document reach the resource store and the
  resolver through the operations above; which operations they perform for a document,
  and the text the tree is serialized to, are parameters. The only \<open>return\<close> statement
  of \<open>process\<close> is \<open>return True\<close> (line 778).
\<close>

definition process ::
  "world \<Rightarrow> browser \<Rightarrow> (string \<Rightarrow> operation list) \<Rightarrow> string \<Rightarrow> downloader
     \<Rightarrow> exn + (bool \<times> downloader)" where
  "process w b passes html_output d =
     (case browser_phase b d of
        Inl e \<Rightarrow> Inl e
      | Inr (html_content, d1) \<Rightarrow>
         (case run_ops w d1 (passes html_content) of
            Inl e \<Rightarrow> Inl e
          | Inr d2 \<Rightarrow>
              Inr (True, d2\<lparr> files := (files d2)(output_dir d2 @ [''index.html'']
                                                    \<mapsto> File html_output) \<rparr>)))"

text \<open>
  \<open>process_download\<close> of the job layer (\<open>app.py\<close>, lines 105 to 146): every exception is
  caught and recorded as the status \<open>error\<close>, as is a false result of \<open>process\<close>;
  \<open>packaging\<close> tells whether making the archive and removing the raw files succeed.
\<close>

datatype status = Complete | Error

definition process_download ::
  "world \<Rightarrow> browser \<Rightarrow> (string \<Rightarrow> operation list) \<Rightarrow> string \<Rightarrow> bool
     \<Rightarrow> string \<Rightarrow> path \<Rightarrow> disk \<Rightarrow> status" where
  "process_download w b passes html_output packaging u download_dir fs =
     (case init u download_dir fs of
        Inl e \<Rightarrow> Error
      | Inr d \<Rightarrow>
         (case process w b passes html_output d of
            Inl e \<Rightarrow> Error
          | Inr (success, d') \<Rightarrow>
              (if \<not> success then Error
               else if packaging then Complete else Error)))"

text \<open>A run in which everything works except \<open>page.content\<close>, which raises.\<close>

definition no_content_browser :: browser where
  "no_content_browser = \<lparr> b_start = True, b_goto = True, b_captured = Map.empty,
     b_url = ''https://a.test/p/q/index.html'', b_wait = True,
     b_iframe = Inr ((None, False), None), b_measured = Some (1000, 500),
     b_page = (\<lambda>i. Some 1000), b_cookies = True, b_content = None, b_close = True \<rparr>"

section \<open>The Python library\<close>

text \<open>
  The library functions the examples run on, after CPython 3.11: \<open>urlsplit\<close>, \<open>urlparse\<close>,
  \<open>urlunparse\<close> and \<open>urljoin\<close> of \<open>urllib.parse\<close> (without the check of the address inside
  a bracketed host), \<open>hashlib.md5\<close> (RFC 1321) on the UTF-8 encoding, and a few lines of
  the table of \<open>mimetypes\<close>.
\<close>

definition split_rest :: "char \<Rightarrow> string \<Rightarrow> string" where
  "split_rest sep s = drop 1 (dropWhile (\<lambda>c. c \<noteq> sep) s)"

definition c0_or_space :: "char \<Rightarrow> bool" where
  "c0_or_space c = ((of_char c :: nat) \<le> 32)"

definition unsafe_url_byte :: "char \<Rightarrow> bool" where
  "unsafe_url_byte c = (c = CHR 0x09 \<or> c = CHR 0x0D \<or> c = CHR 0x0A)"

definition ascii_alpha :: "char \<Rightarrow> bool" where
  "ascii_alpha c = (let n = (of_char c :: nat) in (97 \<le> n \<and> n \<le> 122) \<or> (65 \<le> n \<and> n \<le> 90))"

definition scheme_char :: "char \<Rightarrow> bool" where
  "scheme_char c = (let n = (of_char c :: nat) in
     ascii_alpha c \<or> (48 \<le> n \<and> n \<le> 57) \<or> c = CHR ''+'' \<or> c = CHR ''-'' \<or> c = CHR ''.'')"

definition ascii_lower :: "char \<Rightarrow> char" where
  "ascii_lower c = (let n = (of_char c :: nat) in if 65 \<le> n \<and> n \<le> 90 then char_of (n + 32) else c)"

fun py_split :: "char \<Rightarrow> string \<Rightarrow> string list" where
  "py_split sep [] = [[]]"
| "py_split sep (c # cs) =
     (if c = sep then [] # py_split sep cs
      else (case py_split sep cs of [] \<Rightarrow> [[c]] | x # xs \<Rightarrow> (c # x) # xs))"

fun py_join :: "char \<Rightarrow> string list \<Rightarrow> string" where
  "py_join sep [] = []"
| "py_join sep [x] = x"
| "py_join sep (x # y # zs) = x @ sep # py_join sep (y # zs)"

definition uses_relative :: "string list" where
  "uses_relative = [[], ''ftp'', ''http'', ''gopher'', ''nntp'', ''imap'', ''wais'', ''file'',
     ''https'', ''shttp'', ''mms'', ''prospero'', ''rtsp'', ''rtsps'', ''rtspu'', ''sftp'',
     ''svn'', ''svn+ssh'', ''ws'', ''wss'']"

definition uses_netloc :: "string list" where
  "uses_netloc = [[], ''ftp'', ''http'', ''gopher'', ''nntp'', ''telnet'', ''imap'', ''wais'',
     ''file'', ''mms'', ''https'', ''shttp'', ''snews'', ''prospero'', ''rtsp'', ''rtsps'',
     ''rtspu'', ''rsync'', ''svn'', ''svn+ssh'', ''sftp'', ''nfs'', ''git'', ''git+ssh'',
     ''ws'', ''wss'']"

definition uses_params :: "string list" where
  "uses_params = [[], ''ftp'', ''hdl'', ''prospero'', ''http'', ''imap'', ''https'', ''shttp'',
     ''rtsp'', ''rtsps'', ''rtspu'', ''sip'', ''sips'', ''mms'', ''sftp'', ''tel'']"

definition netloc_delim :: "char \<Rightarrow> bool" where
  "netloc_delim c = (c = CHR ''/'' \<or> c = CHR ''?'' \<or> c = CHR ''#'')"

definition py_urlsplit :: "string \<Rightarrow> string \<Rightarrow> exn + (string \<times> string \<times> string \<times> string \<times> string)" where
  "py_urlsplit url0 scheme0 =
     (let url1 = filter (\<lambda>c. \<not> unsafe_url_byte c) (dropWhile c0_or_space url0);
          scheme1 = filter (\<lambda>c. \<not> unsafe_url_byte c)
                      (rev (dropWhile c0_or_space (rev (dropWhile c0_or_space scheme0))));
          pre = split_first CHR '':'' url1;
          has_scheme = (CHR '':'' \<in> set url1 \<and> pre \<noteq> [] \<and> ascii_alpha (hd pre) \<and> list_all scheme_char pre);
          scheme = (if has_scheme then map ascii_lower pre else scheme1);
          url2 = (if has_scheme then split_rest CHR '':'' url1 else url1);
          has_netloc = (take 2 url2 = ''//'');
          netloc = (if has_netloc then takeWhile (\<lambda>c. \<not> netloc_delim c) (drop 2 url2) else []);
          url3 = (if has_netloc then dropWhile (\<lambda>c. \<not> netloc_delim c) (drop 2 url2) else url2);
          fragment = split_rest CHR ''#'' url3;
          url4 = split_first CHR ''#'' url3;
          query = split_rest CHR ''?'' url4;
          url5 = split_first CHR ''?'' url4
      in if (CHR ''['' \<in> set netloc \<and> CHR '']'' \<notin> set netloc)
            \<or> (CHR '']'' \<in> set netloc \<and> CHR ''['' \<notin> set netloc)
         then Inl ValueError
         else Inr (scheme, netloc, url5, query, fragment))"

definition splitparams :: "string \<Rightarrow> string \<times> string" where
  "splitparams u =
     (if CHR ''/'' \<in> set u then
        (let seg = rev (takeWhile (\<lambda>c. c \<noteq> CHR ''/'') (rev u));
             dir = take (length u - length seg) u
         in if CHR '';'' \<in> set seg then (dir @ split_first CHR '';'' seg, split_rest CHR '';'' seg)
            else (u, []))
      else (split_first CHR '';'' u, split_rest CHR '';'' u))"

definition py_urlparse ::
  "string \<Rightarrow> string \<Rightarrow> exn + (string \<times> string \<times> string \<times> string \<times> string \<times> string)" where
  "py_urlparse u scheme0 =
     (case py_urlsplit u scheme0 of
        Inl e \<Rightarrow> Inl e
      | Inr (scheme, netloc, path, query, fragment) \<Rightarrow>
          (if scheme \<in> set uses_params \<and> CHR '';'' \<in> set path
           then (case splitparams path of (path', params) \<Rightarrow>
                   Inr (scheme, netloc, path', params, query, fragment))
           else Inr (scheme, netloc, path, [], query, fragment)))"

definition py_urlunsplit :: "string \<times> string \<times> string \<times> string \<times> string \<Rightarrow> string" where
  "py_urlunsplit parts = (case parts of (scheme, netloc, u, query, fragment) \<Rightarrow>
     (let u1 = (if netloc \<noteq> [] \<or> (scheme \<noteq> [] \<and> scheme \<in> set uses_netloc) \<or> take 2 u = ''//''
                then ''//'' @ netloc @ (if u \<noteq> [] \<and> take 1 u \<noteq> ''/'' then CHR ''/'' # u else u)
                else u);
          u2 = (if scheme \<noteq> [] then scheme @ '':'' @ u1 else u1);
          u3 = (if query \<noteq> [] then u2 @ ''?'' @ query else u2)
      in if fragment \<noteq> [] then u3 @ ''#'' @ fragment else u3))"

definition py_urlunparse ::
  "string \<times> string \<times> string \<times> string \<times> string \<times> string \<Rightarrow> string" where
  "py_urlunparse parts = (case parts of (scheme, netloc, u, params, query, fragment) \<Rightarrow>
     py_urlunsplit (scheme, netloc, (if params \<noteq> [] then u @ '';'' @ params else u), query, fragment))"

fun resolve_segments :: "string list \<Rightarrow> string list \<Rightarrow> string list" where
  "resolve_segments resolved [] = resolved"
| "resolve_segments resolved (seg # segs) =
     (if seg = ''..'' then resolve_segments (butlast resolved) segs
      else if seg = ''.'' then resolve_segments resolved segs
      else resolve_segments (resolved @ [seg]) segs)"

definition py_urljoin :: "string \<Rightarrow> string \<Rightarrow> exn + string" where
  "py_urljoin base u =
     (if base = [] then Inr u
      else if u = [] then Inr base
      else
        (case py_urlparse base [] of
           Inl e \<Rightarrow> Inl e
         | Inr (bscheme, bnetloc, bpath, bparams, bquery, bfragment) \<Rightarrow>
            (case py_urlparse u bscheme of
               Inl e \<Rightarrow> Inl e
             | Inr (scheme, netloc, path, params, query, fragment) \<Rightarrow>
                (if scheme \<noteq> bscheme \<or> scheme \<notin> set uses_relative then Inr u
                 else if scheme \<in> set uses_netloc \<and> netloc \<noteq> []
                 then Inr (py_urlunparse (scheme, netloc, path, params, query, fragment))
                 else
                   (let netloc' = (if scheme \<in> set uses_netloc then bnetloc else netloc) in
                    if path = [] \<and> params = []
                    then Inr (py_urlunparse (scheme, netloc', bpath, bparams,
                                (if query = [] then bquery else query), fragment))
                    else
                      (let base_parts0 = py_split CHR ''/'' bpath;
                           base_parts = (if last base_parts0 \<noteq> [] then butlast base_parts0
                                         else base_parts0);
                           joined = base_parts @ py_split CHR ''/'' path;
                           segments = (if take 1 path = ''/'' then py_split CHR ''/'' path
                                       else if length joined < 2 then joined
                                       else take 1 joined @ filter (\<lambda>s. s \<noteq> []) (butlast (tl joined))
                                              @ [last joined]);
                           resolved0 = resolve_segments [] segments;
                           resolved = (if last segments = ''.'' \<or> last segments = ''..''
                                       then resolved0 @ [[]] else resolved0);
                           new_path = py_join CHR ''/'' resolved
                       in Inr (py_urlunparse (scheme, netloc',
                                 (if new_path = [] then ''/'' else new_path),
                                 params, query, fragment))))))))"


definition py_urlparse_path :: "string \<Rightarrow> exn + string" where
  "py_urlparse_path u =
     (case py_urlparse u [] of
        Inl e \<Rightarrow> Inl e
      | Inr (scheme, netloc, path, params, query, fragment) \<Rightarrow> Inr path)"

subsection \<open>MD5\<close>

definition md5_s :: "nat list" where
  "md5_s = concat (replicate 4 [7, 12, 17, 22]) @ concat (replicate 4 [5, 9, 14, 20])
         @ concat (replicate 4 [4, 11, 16, 23]) @ concat (replicate 4 [6, 10, 15, 21])"

definition md5_K :: "32 word list" where
  "md5_K =
    [0xd76aa478, 0xe8c7b756, 0x242070db, 0xc1bdceee, 0xf57c0faf, 0x4787c62a,
     0xa8304613, 0xfd469501, 0x698098d8, 0x8b44f7af, 0xffff5bb1, 0x895cd7be,
     0x6b901122, 0xfd987193, 0xa679438e, 0x49b40821, 0xf61e2562, 0xc040b340,
     0x265e5a51, 0xe9b6c7aa, 0xd62f105d, 0x2441453, 0xd8a1e681, 0xe7d3fbc8,
     0x21e1cde6, 0xc33707d6, 0xf4d50d87, 0x455a14ed, 0xa9e3e905, 0xfcefa3f8,
     0x676f02d9, 0x8d2a4c8a, 0xfffa3942, 0x8771f681, 0x6d9d6122, 0xfde5380c,
     0xa4beea44, 0x4bdecfa9, 0xf6bb4b60, 0xbebfbc70, 0x289b7ec6, 0xeaa127fa,
     0xd4ef3085, 0x4881d05, 0xd9d4d039, 0xe6db99e5, 0x1fa27cf8, 0xc4ac5665,
     0xf4292244, 0x432aff97, 0xab9423a7, 0xfc93a039, 0x655b59c3, 0x8f0ccc92,
     0xffeff47d, 0x85845dd1, 0x6fa87e4f, 0xfe2ce6e0, 0xa3014314, 0x4e0811a1,
     0xf7537e82, 0xbd3af235, 0x2ad7d2bb, 0xeb86d391]"

definition md5_pad :: "8 word list \<Rightarrow> 8 word list" where
  "md5_pad bs = (let n = length bs; z = (119 - n mod 64) mod 64 in
     bs @ [0x80] @ replicate z 0 @ map (\<lambda>i. word_of_nat ((8 * n) div 2 ^ (8 * i))) [0..<8])"

fun le32 :: "8 word list \<Rightarrow> 32 word" where
  "le32 [] = 0"
| "le32 (b # bs) = ucast b + push_bit 8 (le32 bs)"

fun chunks :: "nat \<Rightarrow> nat \<Rightarrow> 'a list \<Rightarrow> 'a list list" where
  "chunks 0 k xs = []"
| "chunks (Suc n) k xs = take k xs # chunks n k (drop k xs)"

type_synonym md5_state = "32 word \<times> 32 word \<times> 32 word \<times> 32 word"

definition md5_round :: "32 word list \<Rightarrow> md5_state \<Rightarrow> nat \<Rightarrow> md5_state" where
  "md5_round M st i = (case st of (A, B, C, D) \<Rightarrow>
     let (F, g) = (if i < 16 then ((B AND C) OR (NOT B AND D), i)
                   else if i < 32 then ((D AND B) OR (NOT D AND C), (5 * i + 1) mod 16)
                   else if i < 48 then (B XOR C XOR D, (3 * i + 5) mod 16)
                   else (C XOR (B OR NOT D), (7 * i) mod 16));
         F' = F + A + md5_K ! i + M ! g
     in (D, B + word_rotl (md5_s ! i) F', B, C))"

definition md5_block :: "md5_state \<Rightarrow> 8 word list \<Rightarrow> md5_state" where
  "md5_block st blk = (let M = map le32 (chunks 16 4 blk) in
     case st of (a0, b0, c0, d0) \<Rightarrow>
     case foldl (md5_round M) st [0..<64] of (A, B, C, D) \<Rightarrow> (a0 + A, b0 + B, c0 + C, d0 + D))"

definition bytes_le32 :: "32 word \<Rightarrow> 8 word list" where
  "bytes_le32 x = map (\<lambda>i. ucast (drop_bit (8 * i) x)) [0..<4]"

definition md5 :: "8 word list \<Rightarrow> 8 word list" where
  "md5 bs = (let p = md5_pad bs in
     case foldl md5_block (0x67452301, 0xefcdab89, 0x98badcfe, 0x10325476)
            (chunks (length p div 64) 64 p)
     of (a, b, c, d) \<Rightarrow> concat (map bytes_le32 [a, b, c, d]))"

definition hexdigit :: "nat \<Rightarrow> char" where
  "hexdigit n = ''0123456789abcdef'' ! n"

definition hex_byte :: "8 word \<Rightarrow> string" where
  "hex_byte b = [hexdigit (unat b div 16), hexdigit (unat b mod 16)]"

text \<open>\<open>str.encode()\<close>: UTF-8, for code points below 256.\<close>

definition encode_utf8 :: "string \<Rightarrow> 8 word list" where
  "encode_utf8 s = concat (map (\<lambda>c. let n = (of_char c :: nat) in
     if n < 128 then [word_of_nat n]
     else [word_of_nat (192 + n div 64), word_of_nat (128 + n mod 64)]) s)"

definition py_md5_hexdigest :: "string \<Rightarrow> string" where
  "py_md5_hexdigest u = concat (map hex_byte (md5 (encode_utf8 u)))"

subsection \<open>The world of the examples\<close>

definition py_guess_extension :: "string \<Rightarrow> string option" where
  "py_guess_extension mime =
     map_of [(''text/css'', ''.css''), (''image/png'', ''.png''), (''image/jpeg'', ''.jpg''),
             (''text/html'', ''.html'')] (map ascii_lower mime)"

definition python_world :: "(nat \<Rightarrow> string \<Rightarrow> http_result) \<Rightarrow> world" where
  "python_world http = \<lparr> urljoin = py_urljoin, urlparse_path = py_urlparse_path,
     md5_hexdigest = py_md5_hexdigest, guess_extension = py_guess_extension,
     session_get = http \<rparr>"

text \<open>A job as \<open>__init__\<close> leaves it, for the page \<open>https://a.test/p/q/index.html\<close>.\<close>

definition example_job :: downloader where
  "example_job = \<lparr> url = ''https://a.test/p/q/index.html'',
     output_dir = [''downloads'', ''job''], assets_dir = [''downloads'', ''job'', ''assets''],
     resource_cache = Map.empty, network_resources = Map.empty,
     base_url = ''https://a.test/p/q/index.html'',
     files = [[''downloads''] \<mapsto> Dir, [''downloads'', ''job''] \<mapsto> Dir,
              [''downloads'', ''job'', ''assets''] \<mapsto> Dir],
     requests = [] \<rparr>"


section \<open>Properties\<close>

subsection \<open>Strings\<close>

lemma startswith_Nil [simp]: "startswith s []"
  by (simp add: startswith_def)

lemma startswith_Cons [simp]:
  "startswith (c # s) (x # p) = (c = x \<and> startswith s p)"
  by (auto simp: startswith_def)

lemma startswith_empty [simp]: "startswith [] (x # p) = False"
  by (simp add: startswith_def)

subsection \<open>The scroll probe is bounded\<close>

declare scroll_loop.simps [simp del]

lemma scroll_loop_length:
  "length (scroll_loop page vh current th iteration) \<le> max_iterations - iteration"
proof (induction page vh current th iteration rule: scroll_loop.induct)
  case (1 page vh current th iteration)
  show ?case
  proof (cases "current < th \<and> iteration < max_iterations")
    case False
    then show ?thesis by (subst scroll_loop.simps) auto
  next
    case True
    show ?thesis
    proof (cases "page iteration")
      case None
      with True show ?thesis by (subst scroll_loop.simps) auto
    next
      case (Some h)
      from "1.IH" [OF True Some]
      have "length (scroll_loop page vh (current + vh) (if th < h then h else th) (iteration + 1))
              \<le> max_iterations - (iteration + 1)" .
      with True Some show ?thesis by (subst scroll_loop.simps) auto
    qed
  qed
qed

text \<open>
  C8. Whatever the page reports, and also when every new measurement is larger than the
  one before, the loop of \<open>_scroll_page\<close> begins at most 20 iterations; the loop is a
  th function, so it always ends.
\<close>

theorem scroll_probe_bounded:
  "length (scroll_page measured page) \<le> 20"
proof (cases measured)
  case None
  then show ?thesis by (simp add: scroll_page_def)
next
  case (Some m)
  obtain th vh where m: "m = (th, vh)" by (cases m)
  have "length (scroll_loop page vh 0 th 0) \<le> max_iterations - 0"
    by (rule scroll_loop_length)
  with Some m show ?thesis by (simp add: scroll_page_def max_iterations_def)
qed

text \<open>
  A page that grows at every measurement is scrolled 20 times; a page of fixed height
  until its end is reached; a call that raises ends the loop at once.
\<close>

lemma scroll_probe_reaches_cap:
  "length (scroll_page (Some (1000, 100)) (\<lambda>i. Some (2000 + 1000 * int i))) = 20"
  by code_simp

lemma scroll_probe_short_page:
  "scroll_page (Some (1000, 400)) (\<lambda>i. Some 1000) = [0, 400, 800]"
  by code_simp

lemma scroll_probe_raises:
  "scroll_page (Some (1000, 400)) (\<lambda>i. if i = 1 then None else Some 1000) = [0, 400]"
  by code_simp

subsection \<open>Navigation anchors\<close>



text \<open>The loop of step 9 treats every anchor that has an \<open>href\<close>, and nothing else.\<close>

lemma fix_navigation_links_nth:
  "i < length doc \<Longrightarrow>
   fix_navigation_links doc ! i
     = (if tag (doc ! i) = ''a'' \<and> attrs (doc ! i) ''href'' \<noteq> None
        then fix_navigation_link (doc ! i) else doc ! i)"
  by (simp add: fix_navigation_links_def)

subsection \<open>The resource store and the resolver\<close>

lemma save_resource_cached:
  "resource_cache d u = Some p \<Longrightarrow> save_resource w d u c ct = Inr (Some p, d)"
  by (simp add: save_resource_def)

lemma save_resource_empty:
  "resource_cache d u = None \<Longrightarrow> save_resource w d u [] ct = Inr (None, d)"
  by (simp add: save_resource_def)



lemma save_resource_None:
  "save_resource w d u c ct = Inr (None, d') \<Longrightarrow> d' = d \<and> resource_cache d u = None"
  by (auto simp: save_resource_def Let_def split: option.splits if_splits sum.splits)

















text \<open>
  C9, as amended. When the absolute URL is not in the cache and its captured response has
  an empty body, \<open>_get_resource\<close> returns \<open>None\<close> and leaves the job as it is: no
  request is sent and the cache gets no entry.
\<close>

theorem empty_capture_unresolved:
  assumes "\<not> not_fetchable u" and "urljoin w (base_or base (base_url d)) u = Inr a"
    and "resource_cache d a = None" and "network_resources d a = Some ([], ct)"
  shows "get_resource w d u base = Inr (None, d)"
  using assms by (simp add: get_resource_def save_resource_def)


lemma join_page_rel:
  "py_urljoin ''https://a.test/p/q/index.html'' ''../../img/y.png'' = Inr ''https://a.test/img/y.png''"
  by code_simp

lemma path_y: "py_urlparse_path ''https://a.test/img/y.png'' = Inr ''/img/y.png''"
  by code_simp

lemma ext_y: "splitext_ext ''/img/y.png'' = ''.png''"
  by code_simp

lemma name_y: "take 30 (sanitize (split_first CHR ''.'' (basename ''/img/y.png''))) = ''y''"
  by code_simp

lemma base_y: "basename ''/img/y.png'' = ''y.png''"
  by code_simp

lemma filename_y:
  "generate_filename (python_world http) ''https://a.test/img/y.png'' ct
     = Inr (''y_'' @ take 12 (py_md5_hexdigest ''https://a.test/img/y.png'') @ ''.png'')"
  using name_y by (simp add: generate_filename_def get_extension_def resource_name_def python_world_def path_y ext_y base_y)

lemma get_resource_fetch_fails:
  assumes "\<not> not_fetchable u" and "urljoin w (base_or base (base_url d)) u = Inr a"
    and "resource_cache d a = None" and "network_resources d a = None"
    and "\<not> not_fetchable a"
    and "session_get w (length (requests d)) a = HttpRaises
         \<or> (\<exists>status body ct. session_get w (length (requests d)) a = HttpResponse status body ct
               \<and> status \<noteq> 200)"
  shows "get_resource w d u base = Inr (Some u, d\<lparr> requests := requests d @ [a] \<rparr>)"
  using assms by (auto simp: get_resource_def download_fallback_def Let_def)





theorem empty_capture_unresolved_witness:
  "get_resource (python_world (\<lambda>n u. HttpRaises))
      (example_job\<lparr> network_resources := [''https://a.test/img/y.png'' \<mapsto> ([], ''image/png'')] \<rparr>)
      ''../../img/y.png'' None
     = Inr (None,
        example_job\<lparr> network_resources := [''https://a.test/img/y.png'' \<mapsto> ([], ''image/png'')] \<rparr>)"
  by (rule empty_capture_unresolved [where a = "''https://a.test/img/y.png''" and ct = "''image/png''"])
     (simp_all add: not_fetchable_def python_world_def example_job_def join_page_rel)

lemma join_page_sheet:
  "py_urljoin ''https://a.test/p/q/index.html'' ''/css/x.css'' = Inr ''https://a.test/css/x.css''"
  by code_simp

lemma join_page_sheet_abs:
  "py_urljoin ''https://a.test/p/q/index.html'' ''https://a.test/css/x.css'' = Inr ''https://a.test/css/x.css''"
  by code_simp

lemma path_x: "py_urlparse_path ''https://a.test/css/x.css'' = Inr ''/css/x.css''"
  by code_simp

lemma ext_x: "splitext_ext ''/css/x.css'' = ''.css''"
  by code_simp

lemma name_x: "take 30 (sanitize (split_first CHR ''.'' (basename ''/css/x.css''))) = ''x''"
  by code_simp

lemma base_x: "basename ''/css/x.css'' = ''x.css''"
  by code_simp

lemma filename_x:
  "generate_filename (python_world http) ''https://a.test/css/x.css'' ct
     = Inr (''x_'' @ take 12 (py_md5_hexdigest ''https://a.test/css/x.css'') @ ''.css'')"
  using name_x by (simp add: generate_filename_def get_extension_def resource_name_def python_world_def path_x ext_x base_x)

text \<open>
  A style sheet whose captured body is empty is fetched again by the style-sheet pass and
  saved; its URL is then in the cache, and \<open>_get_resource\<close> returns the saved path for
  it, although its captured body is still empty.
\<close>

theorem cached_url_with_empty_capture:
  "(case process_stylesheet_link (python_world (\<lambda>n u. HttpResponse 200 ''a{}'' ''text/css''))
           (example_job\<lparr> network_resources := [''https://a.test/css/x.css'' \<mapsto> ([], ''text/css'')] \<rparr>)
           \<lparr> tag = ''link'', attrs = [''rel'' \<mapsto> ''stylesheet'', ''href'' \<mapsto> ''/css/x.css''] \<rparr> of
      Inr (link, d) \<Rightarrow>
        network_resources d ''https://a.test/css/x.css'' = Some ([], ''text/css'')
        \<and> get_resource (python_world (\<lambda>n u. HttpResponse 200 ''a{}'' ''text/css'')) d
              ''https://a.test/css/x.css'' None
            = Inr (Some (''assets/x_'' @ take 12 (py_md5_hexdigest ''https://a.test/css/x.css'') @ ''.css''), d)
    | Inl e \<Rightarrow> False)"
  using filename_x [of "\<lambda>n u. HttpResponse 200 ''a{}'' ''text/css''" "''text/css''"]
  by (simp add: process_stylesheet_link_def fetch_css_def save_resource_def get_resource_def
        not_fetchable_def Let_def match_url_token_def python_world_def example_job_def
        join_page_sheet join_page_sheet_abs)

subsection \<open>A new job\<close>

lemma make_ancestors_ok:
  "(\<And>k c. 0 < k \<Longrightarrow> k \<le> length cs \<Longrightarrow> fs (pre @ take k cs) \<noteq> Some (File c))
   \<Longrightarrow> \<exists>fs'. make_ancestors pre cs fs = Inr fs'"
proof (induction cs arbitrary: pre fs)
  case Nil
  then show ?case by simp
next
  case (Cons x xs)
  from Cons.prems [of 1] have nf: "\<And>c. fs (pre @ [x]) \<noteq> Some (File c)" by simp
  have step: "\<And>k c. 0 < k \<Longrightarrow> k \<le> length xs \<Longrightarrow> fs ((pre @ [x]) @ take k xs) \<noteq> Some (File c)"
    using Cons.prems [of "Suc k" for k] by simp
  show ?case
  proof (cases "fs (pre @ [x])")
    case None
    have "\<exists>fs'. make_ancestors (pre @ [x]) xs (fs(pre @ [x] \<mapsto> Dir)) = Inr fs'"
      by (rule Cons.IH) (use step in auto)
    with None show ?thesis by simp
  next
    case (Some n)
    with nf have n: "n = Dir" by (cases n) auto
    have "\<exists>fs'. make_ancestors (pre @ [x]) xs fs = Inr fs'"
      by (rule Cons.IH) (use step in auto)
    with Some n show ?thesis by simp
  qed
qed

lemma make_ancestors_result:
  "make_ancestors pre cs fs = Inr fs' \<Longrightarrow>
   fs' p = (if \<exists>k. 0 < k \<and> k \<le> length cs \<and> p = pre @ take k cs then Some Dir else fs p)"
proof (induction cs arbitrary: pre fs)
  case Nil
  then show ?case by simp
next
  case (Cons x xs)
  have ex: "(\<exists>k. 0 < k \<and> k \<le> length (x # xs) \<and> p = pre @ take k (x # xs))
            \<longleftrightarrow> p = pre @ [x] \<or> (\<exists>k. 0 < k \<and> k \<le> length xs \<and> p = (pre @ [x]) @ take k xs)"
  proof
    assume "\<exists>k. 0 < k \<and> k \<le> length (x # xs) \<and> p = pre @ take k (x # xs)"
    then obtain k where k: "0 < k" "k \<le> length (x # xs)" "p = pre @ take k (x # xs)" by blast
    then obtain j where j: "k = Suc j" by (cases k) auto
    show "p = pre @ [x] \<or> (\<exists>k. 0 < k \<and> k \<le> length xs \<and> p = (pre @ [x]) @ take k xs)"
    proof (cases j)
      case 0
      with k j show ?thesis by simp
    next
      case (Suc i)
      with k j have "0 < j \<and> j \<le> length xs \<and> p = (pre @ [x]) @ take j xs" by simp
      then show ?thesis by blast
    qed
  next
    assume "p = pre @ [x] \<or> (\<exists>k. 0 < k \<and> k \<le> length xs \<and> p = (pre @ [x]) @ take k xs)"
    then show "\<exists>k. 0 < k \<and> k \<le> length (x # xs) \<and> p = pre @ take k (x # xs)"
    proof
      assume "p = pre @ [x]"
      then have "0 < (1::nat) \<and> 1 \<le> length (x # xs) \<and> p = pre @ take 1 (x # xs)" by simp
      then show ?thesis by blast
    next
      assume "\<exists>k. 0 < k \<and> k \<le> length xs \<and> p = (pre @ [x]) @ take k xs"
      then obtain k where "0 < k" "k \<le> length xs" "p = (pre @ [x]) @ take k xs" by blast
      then have "0 < Suc k \<and> Suc k \<le> length (x # xs) \<and> p = pre @ take (Suc k) (x # xs)" by simp
      then show ?thesis by blast
    qed
  qed
  show ?case
  proof (cases "fs (pre @ [x])")
    case None
    with Cons.prems have r: "make_ancestors (pre @ [x]) xs (fs(pre @ [x] \<mapsto> Dir)) = Inr fs'" by simp
    show ?thesis unfolding ex Cons.IH [OF r] by auto
  next
    case (Some n)
    with Cons.prems have n: "n = Dir" by (cases n) auto
    with Cons.prems Some have r: "make_ancestors (pre @ [x]) xs fs = Inr fs'" by simp
    show ?thesis unfolding ex Cons.IH [OF r] using Some n by auto
  qed
qed

text \<open>
  C10. On a disk where the output path is missing or a directory (and, when missing, has
  nothing below it) and none of its ancestors is a file, \<open>__init__\<close> succeeds: whatever
  was below the output directory is gone, the output directory exists and contains just
  the empty directory \<open>assets\<close>, and the resource cache and the map of captured
  responses are empty.
\<close>

theorem init_fresh_job:
  assumes ne: "out \<noteq> []"
    and nofile: "fs out = None \<or> fs out = Some Dir"
    and anc: "\<forall>k c. 0 < k \<and> k < length out \<longrightarrow> fs (take k out) \<noteq> Some (File c)"
    and below: "fs out = None \<longrightarrow> (\<forall>p. is_under out p \<longrightarrow> fs p = None)"
  shows "\<exists>d. init u out fs = Inr d
       \<and> files d out = Some Dir \<and> files d (out @ [''assets'']) = Some Dir
       \<and> (\<forall>p. is_under out p \<and> p \<noteq> out \<and> p \<noteq> out @ [''assets''] \<longrightarrow> files d p = None)
       \<and> resource_cache d = Map.empty \<and> network_resources d = Map.empty \<and> requests d = []"
proof -
  define fs1 where "fs1 = (if fs out \<noteq> None then (\<lambda>p. if is_under out p then None else fs p) else fs)"
  have rm: "(if fs out \<noteq> None then rmtree out fs else Inr fs) = Inr fs1"
    using nofile by (auto simp: fs1_def rmtree_def)
  have under: "\<And>p. is_under out p \<Longrightarrow> fs1 p = None"
    using below by (auto simp: fs1_def)
  have outside: "\<And>p. \<not> is_under out p \<Longrightarrow> fs1 p = fs p"
    by (auto simp: fs1_def)
  have pre_under: "\<And>k. k < length out \<Longrightarrow> \<not> is_under out (take k out)"
  proof
    fix k assume "k < length out" "is_under out (take k out)"
    then have "length out \<le> length (take k out)"
      by (metis is_under_def length_take min.cobounded1)
    with \<open>k < length out\<close> show False by simp
  qed
  have "\<exists>fs'. make_ancestors [] out fs1 = Inr fs'"
  proof (rule make_ancestors_ok)
    fix k c assume k: "0 < k" "k \<le> length out"
    show "fs1 ([] @ take k out) \<noteq> Some (File c)"
    proof (cases "k < length out")
      case True
      with pre_under outside anc k show ?thesis by simp
    next
      case False
      with k have "take k out = out" by simp
      moreover have "is_under out out" by (simp add: is_under_def)
      ultimately show ?thesis using under by simp
    qed
  qed
  then obtain fs' where ma: "make_ancestors [] out fs1 = Inr fs'" by blast
  note res = make_ancestors_result [OF ma]
  have out_dir: "fs' out = Some Dir"
  proof -
    have "0 < length out \<and> length out \<le> length out \<and> out = [] @ take (length out) out"
      using ne by simp
    then have "\<exists>k. 0 < k \<and> k \<le> length out \<and> out = [] @ take k out" by blast
    then show ?thesis unfolding res by simp
  qed
  have assets_none: "fs' (out @ [''assets'']) = None"
  proof -
    have "\<not> (\<exists>k. 0 < k \<and> k \<le> length out \<and> out @ [''assets''] = [] @ take k out)"
    proof
      assume "\<exists>k. 0 < k \<and> k \<le> length out \<and> out @ [''assets''] = [] @ take k out"
      then obtain k where "k \<le> length out" "out @ [''assets''] = take k out" by auto
      then have "length (out @ [''assets'']) \<le> length out"
        by (metis length_take min.cobounded1)
      then show False by simp
    qed
    moreover have "is_under out (out @ [''assets''])" by (simp add: is_under_def)
    ultimately show ?thesis unfolding res using under by simp
  qed
  have below': "\<And>p. is_under out p \<Longrightarrow> p \<noteq> out \<Longrightarrow> fs' p = None"
  proof -
    fix p assume p: "is_under out p" "p \<noteq> out"
    have "\<not> (\<exists>k. 0 < k \<and> k \<le> length out \<and> p = [] @ take k out)"
    proof
      assume "\<exists>k. 0 < k \<and> k \<le> length out \<and> p = [] @ take k out"
      then obtain k where k: "k \<le> length out" "p = take k out" by auto
      show False
      proof (cases "k < length out")
        case True
        with pre_under k p show False by simp
      next
        case False
        with k p show False by simp
      qed
    qed
    then show "fs' p = None" unfolding res using under p by simp
  qed
  let ?d = "\<lparr> url = u, output_dir = out, assets_dir = out @ [''assets''],
              resource_cache = Map.empty, network_resources = Map.empty, base_url = u,
              files = fs'(out @ [''assets''] \<mapsto> Dir), requests = [] \<rparr>"
  have mk: "makedirs (out @ [''assets'']) fs1 = Inr (fs'(out @ [''assets''] \<mapsto> Dir))"
    using ma assets_none by (simp add: makedirs_def)
  have "init u out fs = Inr ?d"
    unfolding init_def rm using mk by simp
  moreover have "files ?d out = Some Dir" using out_dir by simp
  moreover have "files ?d (out @ [''assets'']) = Some Dir" by simp
  moreover have "\<forall>p. is_under out p \<and> p \<noteq> out \<and> p \<noteq> out @ [''assets''] \<longrightarrow> files ?d p = None"
    using below' by simp
  ultimately show ?thesis by simp
qed

theorem init_fresh_job_witness:
  "init ''https://a.test/p/q/index.html'' [''downloads'', ''job'']
      [[''downloads''] \<mapsto> Dir, [''downloads'', ''job''] \<mapsto> Dir,
       [''downloads'', ''job'', ''index.html''] \<mapsto> File ''old''] = Inr example_job
   \<and> files example_job [''downloads'', ''job''] = Some Dir
   \<and> files example_job [''downloads'', ''job'', ''assets''] = Some Dir
   \<and> files example_job [''downloads'', ''job'', ''index.html''] = None
   \<and> resource_cache example_job = Map.empty \<and> network_resources example_job = Map.empty"
proof -
  let ?out = "[''downloads'', ''job'']"
  let ?fs = "[[''downloads''] \<mapsto> Dir, [''downloads'', ''job''] \<mapsto> Dir,
       [''downloads'', ''job'', ''index.html''] \<mapsto> File ''old'']"
  have a: "\<forall>k c. 0 < k \<and> k < length ?out \<longrightarrow> ?fs (take k ?out) \<noteq> Some (File c)"
  proof (intro allI impI)
    fix k :: nat and c assume "0 < k \<and> k < length ?out"
    then have "k = 1" by simp
    then show "?fs (take k ?out) \<noteq> Some (File c)" by simp
  qed
  from init_fresh_job [of ?out ?fs "''https://a.test/p/q/index.html''", OF _ _ a]
  obtain d where d: "init ''https://a.test/p/q/index.html'' ?out ?fs = Inr d"
    and 1: "files d ?out = Some Dir" and 2: "files d (?out @ [''assets'']) = Some Dir"
    and 3: "\<forall>p. is_under ?out p \<and> p \<noteq> ?out \<and> p \<noteq> ?out @ [''assets''] \<longrightarrow> files d p = None"
    and 4: "resource_cache d = Map.empty" "network_resources d = Map.empty"
    by auto
  have e: "init ''https://a.test/p/q/index.html'' ?out ?fs = Inr example_job"
    by (auto simp: init_def rmtree_def makedirs_def example_job_def is_under_def fun_eq_iff)
  with d have de: "d = example_job" by simp
  from 3 have "files d [''downloads'', ''job'', ''index.html''] = None"
    by (simp add: is_under_def)
  with e 1 2 4 show ?thesis unfolding de by simp
qed

subsection \<open>Media elements\<close>

lemma lazy_loop_skip:
  "\<forall>x\<in>set pre. \<not> truthy (attrs elem x) \<Longrightarrow>
   lazy_loop w d elem src (pre @ rest) = lazy_loop w d elem src rest"
  by (induction pre) (auto split: option.splits)

lemma lazy_loop_none:
  "\<forall>x\<in>set as. \<not> truthy (attrs elem x) \<Longrightarrow> lazy_loop w d elem src as = Inr (elem, src, d)"
  by (induction as) (auto split: option.splits)

text \<open>
  C6. For a media element, let the first lazy-loading attribute of the fixed list that
  the element carries with a value (the code tests \<open>elem.get(attr)\<close>, so an empty value
  counts as absent) be resolved to a local path: then \<open>src\<close> is set to that path and the
  lazy attribute is removed; the resolver is called once, for that value, so neither a
  later lazy attribute nor the former \<open>src\<close> is looked at. When the element carries no
  lazy attribute with a value, a \<open>src\<close> that is not a \<open>data:\<close> URL is resolved, and
  replaced by the local path when there is one.
\<close>

theorem lazy_attribute_preferred:
  "(lazy_attributes = pre @ attr # post \<and> (\<forall>x\<in>set pre. \<not> truthy (attrs elem x))
      \<and> attrs elem attr = Some v \<and> v \<noteq> []
      \<and> get_resource w d v None = Inr (Some p, d1) \<and> p \<noteq> [] \<and> p \<noteq> v
    \<longrightarrow> process_media_src w d elem
          = Inr (elem\<lparr> attrs := ((attrs elem)(''src'' \<mapsto> p))(attr := None) \<rparr>, d1))
   \<and> ((\<forall>x\<in>set lazy_attributes. \<not> truthy (attrs elem x))
      \<and> attrs elem ''src'' = Some s \<and> s \<noteq> [] \<and> \<not> startswith s ''data:''
      \<and> get_resource w d s None = Inr (r, d1)
    \<longrightarrow> process_media_src w d elem
          = Inr (if truthy r \<and> r \<noteq> Some s then elem\<lparr> attrs := (attrs elem)(''src'' := r) \<rparr>
                 else elem, d1))"
proof (intro conjI impI)
  assume a: "lazy_attributes = pre @ attr # post \<and> (\<forall>x\<in>set pre. \<not> truthy (attrs elem x))
      \<and> attrs elem attr = Some v \<and> v \<noteq> []
      \<and> get_resource w d v None = Inr (Some p, d1) \<and> p \<noteq> [] \<and> p \<noteq> v"
  then have la: "lazy_attributes = pre @ attr # post"
    and pre: "\<forall>x\<in>set pre. \<not> truthy (attrs elem x)"
    and v: "attrs elem attr = Some v" "v \<noteq> []"
    and g: "get_resource w d v None = Inr (Some p, d1)" "p \<noteq> []" "p \<noteq> v"
    by simp_all
  have "lazy_loop w d elem (attrs elem ''src'') (pre @ attr # post)
               = lazy_loop w d elem (attrs elem ''src'') (attr # post)"
    using pre by (rule lazy_loop_skip)
  also have "\<dots> = Inr (elem\<lparr> attrs := ((attrs elem)(''src'' \<mapsto> p))(attr := None) \<rparr>, None, d1)"
    using v g by simp
  finally have "lazy_loop w d elem (attrs elem ''src'') lazy_attributes
      = Inr (elem\<lparr> attrs := ((attrs elem)(''src'' \<mapsto> p))(attr := None) \<rparr>, None, d1)"
    unfolding la .
  then show "process_media_src w d elem
          = Inr (elem\<lparr> attrs := ((attrs elem)(''src'' \<mapsto> p))(attr := None) \<rparr>, d1)"
    by (simp add: process_media_src_def)
next
  assume b: "(\<forall>x\<in>set lazy_attributes. \<not> truthy (attrs elem x))
      \<and> attrs elem ''src'' = Some s \<and> s \<noteq> [] \<and> \<not> startswith s ''data:''
      \<and> get_resource w d s None = Inr (r, d1)"
  then have "lazy_loop w d elem (attrs elem ''src'') lazy_attributes = Inr (elem, attrs elem ''src'', d)"
    by (simp add: lazy_loop_none)
  with b show "process_media_src w d elem
          = Inr (if truthy r \<and> r \<noteq> Some s then elem\<lparr> attrs := (attrs elem)(''src'' := r) \<rparr>
                 else elem, d1)"
    by (simp add: process_media_src_def)
qed

lemma resolve_y_fetched:
  "get_resource (python_world (\<lambda>n u. HttpResponse 200 ''PNG'' ''image/png'')) example_job
      ''../../img/y.png'' None
   = Inr (Some (''assets/y_'' @ take 12 (py_md5_hexdigest ''https://a.test/img/y.png'') @ ''.png''),
          example_job\<lparr> files := (files example_job)
                 (assets_dir example_job @ [''y_'' @ take 12 (py_md5_hexdigest ''https://a.test/img/y.png'') @ ''.png'']
                    \<mapsto> File ''PNG''),
               resource_cache := (resource_cache example_job)(''https://a.test/img/y.png'' \<mapsto>
                  ''assets/y_'' @ take 12 (py_md5_hexdigest ''https://a.test/img/y.png'') @ ''.png''),
               requests := [''https://a.test/img/y.png''] \<rparr>)"
  using filename_y [of "\<lambda>n u. HttpResponse 200 ''PNG'' ''image/png''" "''image/png''"]
  by (simp add: get_resource_def download_fallback_def save_resource_def Let_def not_fetchable_def
        join_page_rel python_world_def example_job_def)

theorem lazy_attribute_preferred_witness:
  "process_media_src (python_world (\<lambda>n u. HttpResponse 200 ''PNG'' ''image/png'')) example_job
      \<lparr> tag = ''img'', attrs = [''src'' \<mapsto> ''placeholder.gif'', ''data-original'' \<mapsto> ''../../img/y.png'',
                               ''data-bg'' \<mapsto> ''bg.png''] \<rparr>
   = Inr (\<lparr> tag = ''img'',
            attrs = [''src'' \<mapsto> ''assets/y_'' @ take 12 (py_md5_hexdigest ''https://a.test/img/y.png'') @ ''.png'',
                     ''data-bg'' \<mapsto> ''bg.png''] \<rparr>,
          example_job\<lparr> files := (files example_job)
                 (assets_dir example_job @ [''y_'' @ take 12 (py_md5_hexdigest ''https://a.test/img/y.png'') @ ''.png'']
                    \<mapsto> File ''PNG''),
               resource_cache := (resource_cache example_job)(''https://a.test/img/y.png'' \<mapsto>
                  ''assets/y_'' @ take 12 (py_md5_hexdigest ''https://a.test/img/y.png'') @ ''.png''),
               requests := [''https://a.test/img/y.png''] \<rparr>)
   \<and> process_media_src (python_world (\<lambda>n u. HttpResponse 200 ''PNG'' ''image/png'')) example_job
      \<lparr> tag = ''img'', attrs = [''src'' \<mapsto> ''../../img/y.png''] \<rparr>
   = Inr (\<lparr> tag = ''img'',
            attrs = [''src'' \<mapsto> ''assets/y_'' @ take 12 (py_md5_hexdigest ''https://a.test/img/y.png'') @ ''.png''] \<rparr>,
          example_job\<lparr> files := (files example_job)
                 (assets_dir example_job @ [''y_'' @ take 12 (py_md5_hexdigest ''https://a.test/img/y.png'') @ ''.png'']
                    \<mapsto> File ''PNG''),
               resource_cache := (resource_cache example_job)(''https://a.test/img/y.png'' \<mapsto>
                  ''assets/y_'' @ take 12 (py_md5_hexdigest ''https://a.test/img/y.png'') @ ''.png''),
               requests := [''https://a.test/img/y.png''] \<rparr>)"
proof -
  let ?w = "python_world (\<lambda>n u. HttpResponse 200 ''PNG'' ''image/png'')"
  let ?p = "''assets/y_'' @ take 12 (py_md5_hexdigest ''https://a.test/img/y.png'') @ ''.png''"
  let ?e1 = "\<lparr> tag = ''img'', attrs = [''src'' \<mapsto> ''placeholder.gif'', ''data-original'' \<mapsto> ''../../img/y.png'',
                               ''data-bg'' \<mapsto> ''bg.png''] \<rparr>"
  let ?e2 = "\<lparr> tag = ''img'', attrs = [''src'' \<mapsto> ''../../img/y.png''] \<rparr>"
  note t1 = lazy_attribute_preferred [of "[''data-src'']" "''data-original''"
     "[''data-lazy-src'', ''data-url'', ''data-image'', ''data-bg'']" ?e1 "''../../img/y.png''" ?w example_job
     ?p _ "''x''" None, THEN conjunct1, rule_format]
  note t2 = lazy_attribute_preferred [of "[]" "''data-src''" "[]" ?e2 "[]" ?w example_job
     "[]" _ "''../../img/y.png''" "Some ?p", THEN conjunct2, rule_format]
  have 1: "process_media_src ?w example_job ?e1 = Inr (?e1\<lparr> attrs := ((attrs ?e1)(''src'' \<mapsto> ?p))(''data-original'' := None) \<rparr>, 
     example_job\<lparr> files := (files example_job)
                 (assets_dir example_job @ [''y_'' @ take 12 (py_md5_hexdigest ''https://a.test/img/y.png'') @ ''.png'']
                    \<mapsto> File ''PNG''),
               resource_cache := (resource_cache example_job)(''https://a.test/img/y.png'' \<mapsto> ?p),
               requests := [''https://a.test/img/y.png''] \<rparr>)"
    by (rule t1) (simp add: lazy_attributes_def resolve_y_fetched)
  have 2: "process_media_src ?w example_job ?e2 = Inr (if truthy (Some ?p) \<and> Some ?p \<noteq> Some ''../../img/y.png'' then ?e2\<lparr> attrs := (attrs ?e2)(''src'' := Some ?p) \<rparr> else ?e2, 
     example_job\<lparr> files := (files example_job)
                 (assets_dir example_job @ [''y_'' @ take 12 (py_md5_hexdigest ''https://a.test/img/y.png'') @ ''.png'']
                    \<mapsto> File ''PNG''),
               resource_cache := (resource_cache example_job)(''https://a.test/img/y.png'' \<mapsto> ?p),
               requests := [''https://a.test/img/y.png''] \<rparr>)"
    by (rule t2) (simp add: lazy_attributes_def resolve_y_fetched)
  have m: "[''src'' \<mapsto> ''placeholder.gif'', ''data-original'' \<mapsto> ''../../img/y.png'', ''data-bg'' \<mapsto> ''bg.png'']
            (''src'' \<mapsto> ?p, ''data-original'' := None) = [''src'' \<mapsto> ?p, ''data-bg'' \<mapsto> ''bg.png'']"
    by (auto simp: fun_eq_iff)
  from 1 2 m show ?thesis by simp
qed

text \<open>
  A \<open>src\<close> whose resolution fails in every tier stays as it is: the pass changes nothing
  in the element.
\<close>

lemma unresolved_src_kept:
  assumes "\<forall>x\<in>set lazy_attributes. \<not> truthy (attrs elem x)"
    and "attrs elem ''src'' = Some s" and "\<not> not_fetchable s"
    and "urljoin w (base_url d) s = Inr a"
    and "resource_cache d a = None" and "network_resources d a = None" and "\<not> not_fetchable a"
    and "session_get w (length (requests d)) a = HttpRaises"
  shows "process_media_src w d elem = Inr (elem, d\<lparr> requests := requests d @ [a] \<rparr>)"
proof -
  have l: "lazy_loop w d elem (attrs elem ''src'') lazy_attributes = Inr (elem, attrs elem ''src'', d)"
    using assms(1) by (rule lazy_loop_none)
  have g: "get_resource w d s None = Inr (Some s, d\<lparr> requests := requests d @ [a] \<rparr>)"
    using assms(3-8) by (intro get_resource_fetch_fails) simp_all
  from assms(3) have "s \<noteq> []" "\<not> startswith s ''data:''" by (auto simp: not_fetchable_def)
  with l g assms(2) show ?thesis by (simp add: process_media_src_def)
qed

subsection \<open>Style sheets\<close>

lemma hexdigit_in: "n < 16 \<Longrightarrow> hexdigit n \<in> set ''0123456789abcdef''"
  unfolding hexdigit_def by (rule nth_mem) simp

lemma hex_byte_chars: "set (hex_byte b) \<subseteq> set ''0123456789abcdef''"
proof -
  define H where "H = set ''0123456789abcdef''"
  have "unat b < 256" using unsigned_less [of b] by simp
  then have 1: "unat b div 16 < 16" by simp
  have 2: "unat b mod 16 < 16" by simp
  have "hexdigit (unat b div 16) \<in> H"
    unfolding H_def using 1 by (rule hexdigit_in)
  moreover have "hexdigit (unat b mod 16) \<in> H"
    unfolding H_def using 2 by (rule hexdigit_in)
  ultimately have "set [hexdigit (unat b div 16), hexdigit (unat b mod 16)] \<subseteq> H" by simp
  then show ?thesis unfolding H_def hex_byte_def .
qed

lemma py_md5_hexdigest_chars: "set (py_md5_hexdigest u) \<subseteq> set ''0123456789abcdef''"
proof -
  define H where "H = set ''0123456789abcdef''"
  have "\<And>b. set (hex_byte b) \<subseteq> H" unfolding H_def by (rule hex_byte_chars)
  then have "set (concat (map hex_byte (md5 (encode_utf8 u)))) \<subseteq> H" by auto
  then show ?thesis unfolding H_def py_md5_hexdigest_def .
qed

lemma hash_chars:
  "c \<in> set (take 12 (py_md5_hexdigest u)) \<Longrightarrow> c \<in> set ''0123456789abcdef''"
  using py_md5_hexdigest_chars [of u] by (blast dest: in_set_takeD)






lemma join_page_token:
  "py_urljoin ''https://a.test/p/q/index.html'' ''../img/y.png'' = Inr ''https://a.test/p/img/y.png''"
  by code_simp






subsection \<open>File names\<close>

lemma filter_replicate_a: "filter (\<lambda>c. \<not> unsafe_url_byte c) (replicate n CHR ''a'') = replicate n CHR ''a''"
  by (induction n) (auto simp: unsafe_url_byte_def)

lemma takeWhile_replicate_a: "c \<noteq> CHR ''a'' \<Longrightarrow> takeWhile (\<lambda>x. x \<noteq> c) (replicate n CHR ''a'') = replicate n CHR ''a''"
  by (induction n) auto

lemma dropWhile_replicate_a: "c \<noteq> CHR ''a'' \<Longrightarrow> dropWhile (\<lambda>x. x \<noteq> c) (replicate n CHR ''a'') = []"
  by (induction n) auto

lemma path_family:
  "py_urlparse_path (''https://a.test/x.png?'' @ replicate n CHR ''a'') = Inr ''/x.png''"
  by (simp add: py_urlparse_path_def py_urlparse_def py_urlsplit_def Let_def c0_or_space_def
        unsafe_url_byte_def filter_replicate_a split_first_def split_rest_def ascii_alpha_def
        scheme_char_def ascii_lower_def netloc_delim_def uses_params_def
        takeWhile_replicate_a dropWhile_replicate_a)

lemma filename_family:
  "generate_filename (python_world http) (''https://a.test/x.png?'' @ replicate n CHR ''a'') ct
     = Inr (''x_'' @ take 12 (py_md5_hexdigest (''https://a.test/x.png?'' @ replicate n CHR ''a'')) @ ''.png'')"
proof -
  have e: "splitext_ext ''/x.png'' = ''.png''" by code_simp
  have b: "basename ''/x.png'' = ''x.png''" by code_simp
  have n: "take 30 (sanitize (split_first CHR ''.'' ''x.png'')) = ''x''" by code_simp
  show ?thesis
    using n path_family [of n, simplified]
    by (simp add: generate_filename_def get_extension_def resource_name_def python_world_def e b)
qed

lemma finite_short_strings: "finite {h :: string. length h \<le> 12}"
  using finite_lists_length_le [of "UNIV :: char set" 12] by simp

text \<open>
  The URLs \<open>https://a.test/x.png?\<close>, \<open>https://a.test/x.png?a\<close>, \<open>https://a.test/x.png?aa\<close>,
  ... all have the name part \<open>x\<close> and the extension \<open>.png\<close>, and there are only finitely
  many strings of 12 characters: two of these URLs get the same file name.
\<close>

theorem filename_collision:
  "\<exists>u1 u2 f. u1 \<noteq> u2
      \<and> generate_filename (python_world (\<lambda>n u. HttpRaises)) u1 [] = Inr f
      \<and> generate_filename (python_world (\<lambda>n u. HttpRaises)) u2 [] = Inr f"
proof -
  let ?U = "\<lambda>n. ''https://a.test/x.png?'' @ replicate n CHR ''a''"
  let ?h = "\<lambda>n::nat. take 12 (py_md5_hexdigest (?U n))"
  have "range ?h \<subseteq> {h. length h \<le> 12}" by auto
  then have "finite (range ?h)" using finite_short_strings by (rule finite_subset)
  then have "\<not> inj ?h" using finite_imageD [of ?h UNIV] infinite_UNIV_nat by blast
  then obtain n m where nm: "n \<noteq> m" and h: "?h n = ?h m" unfolding inj_on_def by blast
  from nm have "?U n \<noteq> ?U m" by simp
  moreover have "generate_filename (python_world (\<lambda>n u. HttpRaises)) (?U n) []
                   = Inr (''x_'' @ ?h n @ ''.png'')" by (rule filename_family)
  moreover have "generate_filename (python_world (\<lambda>n u. HttpRaises)) (?U m) []
                   = Inr (''x_'' @ ?h n @ ''.png'')" unfolding h by (rule filename_family)
  ultimately show ?thesis by blast
qed

lemma name_char_no_dot: "name_char c \<Longrightarrow> c \<noteq> CHR ''.''"
  by (auto simp: name_char_def)

lemma sanitize_chars: "c \<in> set (sanitize s) \<Longrightarrow> name_char c"
  by (auto simp: sanitize_def name_char_def)

lemma resource_chars: "c \<in> set ''resource'' \<Longrightarrow> name_char c"
  by (auto simp: name_char_def)

lemma splitext_ext_dot: "splitext_ext p = [] \<or> hd (splitext_ext p) = CHR ''.''"
  by (simp add: splitext_ext_def Let_def)

lemma filename_parts_unique:
  assumes eq: "n1 @ ''_'' @ h1 @ e1 = n2 @ ''_'' @ h2 @ e2"
    and n: "CHR ''.'' \<notin> set n1" "CHR ''.'' \<notin> set n2"
    and h: "CHR ''.'' \<notin> set h1" "CHR ''.'' \<notin> set h2"
    and l: "length h1 = 12" "length h2 = 12"
    and e: "e1 = [] \<or> hd e1 = CHR ''.''" "e2 = [] \<or> hd e2 = CHR ''.''"
  shows "n1 = n2 \<and> h1 = h2 \<and> e1 = e2"
proof -
  have tw: "takeWhile (\<lambda>c. c \<noteq> CHR ''.'') (g @ e) = g"
    if "CHR ''.'' \<notin> set g" "e = [] \<or> hd e = CHR ''.''" for g e :: string
  proof (cases e)
    case Nil
    with that show ?thesis by (auto simp: takeWhile_eq_all_conv)
  next
    case (Cons x xs)
    with that have "x = CHR ''.''" by simp
    with Cons that show ?thesis by (auto simp: takeWhile_tail takeWhile_eq_all_conv)
  qed
  let ?g1 = "n1 @ ''_'' @ h1" and ?g2 = "n2 @ ''_'' @ h2"
  have "takeWhile (\<lambda>c. c \<noteq> CHR ''.'') (?g1 @ e1) = ?g1" using n h e by (intro tw) auto
  moreover have "takeWhile (\<lambda>c. c \<noteq> CHR ''.'') (?g2 @ e2) = ?g2" using n h e by (intro tw) auto
  moreover from eq have "?g1 @ e1 = ?g2 @ e2" by simp
  ultimately have g: "?g1 = ?g2" by metis
  then have "length n1 = length n2" using l by (metis add_right_cancel length_append)
  with g have "n1 = n2" "h1 = h2" by auto
  with eq show ?thesis by simp
qed

lemma resource_name_length: "length (resource_name path) \<le> 30"
  by (simp add: resource_name_def Let_def)

lemma resource_name_chars: "c \<in> set (resource_name path) \<Longrightarrow> name_char c"
proof (cases "basename path = []")
  case True
  assume "c \<in> set (resource_name path)"
  with True have "c \<in> set ''resource''" by (simp add: resource_name_def)
  then show ?thesis by (rule resource_chars)
next
  case False
  assume "c \<in> set (resource_name path)"
  with False have "c \<in> set (take 30 (sanitize (split_first CHR ''.'' (basename path))))"
    by (simp add: resource_name_def)
  then have "c \<in> set (sanitize (split_first CHR ''.'' (basename path)))" by (rule in_set_takeD)
  then show ?thesis by (rule sanitize_chars)
qed

lemma get_extension_dot:
  assumes "\<forall>m g. guess_extension w m = Some g \<longrightarrow> g = [] \<or> hd g = CHR ''.''"
    and "get_extension w u content_type = Inr ext"
  shows "ext = [] \<or> hd ext = CHR ''.''"
proof (cases "urlparse_path w u")
  case (Inl e)
  with assms(2) show ?thesis by (simp add: get_extension_def)
next
  case (Inr path)
  with assms splitext_ext_dot [of path] show ?thesis
    by (auto simp: get_extension_def Let_def split: if_splits option.splits)
qed

lemma generate_filename_shape:
  assumes "urlparse_path w u = Inr path" and "get_extension w u content_type = Inr ext"
  shows "generate_filename w u content_type
           = Inr (resource_name path @ ''_'' @ take 12 (md5_hexdigest w u) @ ext)"
  using assms by (simp add: generate_filename_def)

text \<open>
  C2, as amended. The file name of a URL is the name part (at most 30 characters of
  \<open>[a-zA-Z0-9_-]\<close>: the sanitized first dot-segment of the last path segment, or
  \<open>resource\<close> when that segment is empty), then \<open>_\<close>, the first 12 characters of the
  MD5 digest of the URL, then the extension: the suffix of the path when it has one of at
  most 6 characters, else what the content type gives. It is a function of the URL and
  the content type. Two URLs have different file names whenever their name parts, their
  12 digest characters or their extensions differ (for digests of at least 12 hexadecimal
  characters and guessed extensions that begin with a dot, as those of the library).
  Nothing more holds: URLs that agree on the three parts share a file name.
\<close>

theorem filename_policy:
  "(urlparse_path w u = Inr path \<longrightarrow>
      (\<exists>ext. generate_filename w u content_type
                 = Inr (resource_name path @ ''_'' @ take 12 (md5_hexdigest w u) @ ext)
         \<and> length (resource_name path) \<le> 30 \<and> (\<forall>c\<in>set (resource_name path). name_char c)
         \<and> resource_name path
             = (if basename path = [] then ''resource''
                else take 30 (sanitize (split_first CHR ''.'' (basename path))))
         \<and> (splitext_ext path \<noteq> [] \<and> length (splitext_ext path) \<le> 6 \<longrightarrow> ext = splitext_ext path)
         \<and> (\<not> (splitext_ext path \<noteq> [] \<and> length (splitext_ext path) \<le> 6) \<longrightarrow>
               ext = (if content_type = [] then []
                      else case guess_extension w (py_strip (split_first CHR '';'' content_type)) of
                             None \<Rightarrow> [] | Some guessed \<Rightarrow> guessed))))
   \<and> (urlparse_path w u1 = Inr p1 \<and> urlparse_path w u2 = Inr p2
        \<and> get_extension w u1 ct1 = Inr e1 \<and> get_extension w u2 ct2 = Inr e2
        \<and> length (take 12 (md5_hexdigest w u1)) = 12 \<and> length (take 12 (md5_hexdigest w u2)) = 12
        \<and> CHR ''.'' \<notin> set (take 12 (md5_hexdigest w u1))
        \<and> CHR ''.'' \<notin> set (take 12 (md5_hexdigest w u2))
        \<and> (\<forall>m g. guess_extension w m = Some g \<longrightarrow> g = [] \<or> hd g = CHR ''.'')
        \<and> (resource_name p1 \<noteq> resource_name p2
             \<or> take 12 (md5_hexdigest w u1) \<noteq> take 12 (md5_hexdigest w u2) \<or> e1 \<noteq> e2)
      \<longrightarrow> generate_filename w u1 ct1 \<noteq> generate_filename w u2 ct2)"
proof (intro conjI impI)
  assume p: "urlparse_path w u = Inr path"
  let ?ext = "if splitext_ext path \<noteq> [] \<and> length (splitext_ext path) \<le> 6 then splitext_ext path
               else if content_type = [] then []
               else case guess_extension w (py_strip (split_first CHR '';'' content_type)) of
                      None \<Rightarrow> [] | Some guessed \<Rightarrow> guessed"
  have ge: "get_extension w u content_type = Inr ?ext"
    using p by (simp add: get_extension_def Let_def split: option.splits)
  have 1: "generate_filename w u content_type
             = Inr (resource_name path @ ''_'' @ take 12 (md5_hexdigest w u) @ ?ext)"
    using p ge by (rule generate_filename_shape)
  have 2: "length (resource_name path) \<le> 30" by (rule resource_name_length)
  have 3: "\<forall>c\<in>set (resource_name path). name_char c" using resource_name_chars by blast
  have 4: "resource_name path
             = (if basename path = [] then ''resource''
                else take 30 (sanitize (split_first CHR ''.'' (basename path))))"
    by (simp add: resource_name_def Let_def)
  have 5: "splitext_ext path \<noteq> [] \<and> length (splitext_ext path) \<le> 6 \<longrightarrow> ?ext = splitext_ext path"
    by simp
  have 6: "\<not> (splitext_ext path \<noteq> [] \<and> length (splitext_ext path) \<le> 6) \<longrightarrow>
               ?ext = (if content_type = [] then []
                      else case guess_extension w (py_strip (split_first CHR '';'' content_type)) of
                             None \<Rightarrow> [] | Some guessed \<Rightarrow> guessed)"
    by simp
  from 1 2 3 4 5 6
  show "\<exists>ext. generate_filename w u content_type
                 = Inr (resource_name path @ ''_'' @ take 12 (md5_hexdigest w u) @ ext)
         \<and> length (resource_name path) \<le> 30 \<and> (\<forall>c\<in>set (resource_name path). name_char c)
         \<and> resource_name path
             = (if basename path = [] then ''resource''
                else take 30 (sanitize (split_first CHR ''.'' (basename path))))
         \<and> (splitext_ext path \<noteq> [] \<and> length (splitext_ext path) \<le> 6 \<longrightarrow> ext = splitext_ext path)
         \<and> (\<not> (splitext_ext path \<noteq> [] \<and> length (splitext_ext path) \<le> 6) \<longrightarrow>
               ext = (if content_type = [] then []
                      else case guess_extension w (py_strip (split_first CHR '';'' content_type)) of
                             None \<Rightarrow> [] | Some guessed \<Rightarrow> guessed))"
    by blast
next
  assume a: "urlparse_path w u1 = Inr p1 \<and> urlparse_path w u2 = Inr p2
        \<and> get_extension w u1 ct1 = Inr e1 \<and> get_extension w u2 ct2 = Inr e2
        \<and> length (take 12 (md5_hexdigest w u1)) = 12 \<and> length (take 12 (md5_hexdigest w u2)) = 12
        \<and> CHR ''.'' \<notin> set (take 12 (md5_hexdigest w u1))
        \<and> CHR ''.'' \<notin> set (take 12 (md5_hexdigest w u2))
        \<and> (\<forall>m g. guess_extension w m = Some g \<longrightarrow> g = [] \<or> hd g = CHR ''.'')
        \<and> (resource_name p1 \<noteq> resource_name p2
             \<or> take 12 (md5_hexdigest w u1) \<noteq> take 12 (md5_hexdigest w u2) \<or> e1 \<noteq> e2)"
  then have p1: "urlparse_path w u1 = Inr p1" and p2: "urlparse_path w u2 = Inr p2"
    and x1: "get_extension w u1 ct1 = Inr e1" and x2: "get_extension w u2 ct2 = Inr e2"
    and l: "length (take 12 (md5_hexdigest w u1)) = 12" "length (take 12 (md5_hexdigest w u2)) = 12"
    and h: "CHR ''.'' \<notin> set (take 12 (md5_hexdigest w u1))" "CHR ''.'' \<notin> set (take 12 (md5_hexdigest w u2))"
    and gu: "\<forall>m g. guess_extension w m = Some g \<longrightarrow> g = [] \<or> hd g = CHR ''.''"
    and ne: "resource_name p1 \<noteq> resource_name p2
             \<or> take 12 (md5_hexdigest w u1) \<noteq> take 12 (md5_hexdigest w u2) \<or> e1 \<noteq> e2"
    by blast+
  note f1 = generate_filename_shape [OF p1 x1]
  note f2 = generate_filename_shape [OF p2 x2]
  have n1: "CHR ''.'' \<notin> set (resource_name p1)"
    using resource_name_chars [of "CHR ''.''" p1] name_char_no_dot by blast
  have n2: "CHR ''.'' \<notin> set (resource_name p2)"
    using resource_name_chars [of "CHR ''.''" p2] name_char_no_dot by blast
  have d1: "e1 = [] \<or> hd e1 = CHR ''.''" using gu x1 by (rule get_extension_dot)
  have d2: "e2 = [] \<or> hd e2 = CHR ''.''" using gu x2 by (rule get_extension_dot)
  show "generate_filename w u1 ct1 \<noteq> generate_filename w u2 ct2"
  proof
    assume "generate_filename w u1 ct1 = generate_filename w u2 ct2"
    then have "resource_name p1 @ ''_'' @ take 12 (md5_hexdigest w u1) @ e1
             = resource_name p2 @ ''_'' @ take 12 (md5_hexdigest w u2) @ e2"
      unfolding f1 f2 by simp
    from filename_parts_unique [OF this n1 n2 h l d1 d2] ne show False by blast
  qed
qed

lemma length_hex: "length (concat (map hex_byte bs)) = 2 * length bs"
  by (induction bs) (simp_all add: hex_byte_def)

lemma length_md5: "length (md5 bs) = 16"
  by (simp add: md5_def Let_def bytes_le32_def split: prod.splits)

lemma length_py_md5_hexdigest: "length (py_md5_hexdigest u) = 32"
  by (simp add: py_md5_hexdigest_def length_hex length_md5)

lemma hash_no_dot: "CHR ''.'' \<notin> set (take 12 (py_md5_hexdigest u))"
proof
  assume "CHR ''.'' \<in> set (take 12 (py_md5_hexdigest u))"
  then have "CHR ''.'' \<in> set ''0123456789abcdef''" by (rule hash_chars)
  then show False by simp
qed

lemma py_guess_extension_dot: "py_guess_extension m = Some g \<Longrightarrow> g = [] \<or> hd g = CHR ''.''"
  by (auto simp: py_guess_extension_def split: if_splits)

theorem filename_policy_witness:
  "generate_filename (python_world (\<lambda>n u. HttpRaises)) ''https://a.test/img/y.png'' ''image/png''
     = Inr (''y_'' @ take 12 (py_md5_hexdigest ''https://a.test/img/y.png'') @ ''.png'')
   \<and> generate_filename (python_world (\<lambda>n u. HttpRaises)) ''https://a.test/img/y.png'' ''image/png''
     \<noteq> generate_filename (python_world (\<lambda>n u. HttpRaises)) ''https://a.test/css/x.css'' ''text/css''"
proof -
  let ?w = "python_world (\<lambda>n u. HttpRaises)"
  let ?y = "''https://a.test/img/y.png''" and ?x = "''https://a.test/css/x.css''"
  note pol = filename_policy [where w = ?w and u = ?y and path = "''/img/y.png''"
     and content_type = "''image/png''" and ?u1.0 = ?y and ?u2.0 = ?x and ?p1.0 = "''/img/y.png''"
     and ?p2.0 = "''/css/x.css''" and ?ct1.0 = "''image/png''" and ?ct2.0 = "''text/css''"
     and ?e1.0 = "''.png''" and ?e2.0 = "''.css''"]
  have py: "urlparse_path ?w ?y = Inr ''/img/y.png''" by (simp add: python_world_def path_y)
  have px: "urlparse_path ?w ?x = Inr ''/css/x.css''" by (simp add: python_world_def path_x)
  have ny: "resource_name ''/img/y.png'' = ''y''" using name_y by (simp add: resource_name_def base_y)
  have nx: "resource_name ''/css/x.css'' = ''x''" using name_x by (simp add: resource_name_def base_x)
  have ey: "get_extension ?w ?y ''image/png'' = Inr ''.png''"
    by (simp add: get_extension_def py ext_y)
  have ex: "get_extension ?w ?x ''text/css'' = Inr ''.css''"
    by (simp add: get_extension_def px ext_x)
  from pol [THEN conjunct1, rule_format, OF py] obtain ext where
    g: "generate_filename ?w ?y ''image/png''
          = Inr (resource_name ''/img/y.png'' @ ''_'' @ take 12 (md5_hexdigest ?w ?y) @ ext)"
    and e: "splitext_ext ''/img/y.png'' \<noteq> [] \<and> length (splitext_ext ''/img/y.png'') \<le> 6
              \<longrightarrow> ext = splitext_ext ''/img/y.png''"
    by blast
  from e have "ext = ''.png''" by (simp add: ext_y)
  with g ny have 1: "generate_filename ?w ?y ''image/png''
     = Inr (''y_'' @ take 12 (py_md5_hexdigest ?y) @ ''.png'')"
    by (simp add: python_world_def)
  have gu: "\<forall>m g. guess_extension ?w m = Some g \<longrightarrow> g = [] \<or> hd g = CHR ''.''"
    using py_guess_extension_dot by (simp add: python_world_def)
  have hyp: "urlparse_path ?w ?y = Inr ''/img/y.png'' \<and> urlparse_path ?w ?x = Inr ''/css/x.css''
        \<and> get_extension ?w ?y ''image/png'' = Inr ''.png'' \<and> get_extension ?w ?x ''text/css'' = Inr ''.css''
        \<and> length (take 12 (md5_hexdigest ?w ?y)) = 12 \<and> length (take 12 (md5_hexdigest ?w ?x)) = 12
        \<and> CHR ''.'' \<notin> set (take 12 (md5_hexdigest ?w ?y))
        \<and> CHR ''.'' \<notin> set (take 12 (md5_hexdigest ?w ?x))
        \<and> (\<forall>m g. guess_extension ?w m = Some g \<longrightarrow> g = [] \<or> hd g = CHR ''.'')
        \<and> (resource_name ''/img/y.png'' \<noteq> resource_name ''/css/x.css''
             \<or> take 12 (md5_hexdigest ?w ?y) \<noteq> take 12 (md5_hexdigest ?w ?x) \<or> ''.png'' \<noteq> ''.css'')"
    using py px ey ex gu hash_no_dot ny nx
    by (simp add: python_world_def length_py_md5_hexdigest)
  from pol [THEN conjunct2, rule_format, OF hyp] 1 show ?thesis by blast
qed

subsection \<open>The outcome of a job\<close>

lemma process_returns_True: "process w b passes out d = Inr (r, d') \<Longrightarrow> r"
  by (auto simp: process_def split: sum.splits prod.splits)

lemma browser_phase_no_content:
  "b_start b \<Longrightarrow> b_wait b \<Longrightarrow> b_iframe b = Inr ((c, False), nb) \<Longrightarrow> b_cookies b \<Longrightarrow>
   b_content b = None \<Longrightarrow> browser_phase b d = Inl BrowserError"
  by (simp add: browser_phase_def Let_def)

lemma browser_phase_goto: "browser_phase (b\<lparr> b_goto := g \<rparr>) d = browser_phase b d"
  by (auto simp: browser_phase_def Let_def split: sum.splits prod.splits option.splits)

lemma browser_phase_probe:
  "browser_phase (b\<lparr> b_measured := m, b_page := pg \<rparr>) d = browser_phase b d"
  by (auto simp: browser_phase_def Let_def split: sum.splits prod.splits option.splits)

lemma process_download_Complete:
  "process_download w b passes out pk u dir fs = Complete
     \<longleftrightarrow> (\<exists>d0 d'. init u dir fs = Inr d0 \<and> process w b passes out d0 = Inr (True, d') \<and> pk)"
  by (auto simp: process_download_def split: sum.splits prod.splits if_splits)

text \<open>
  C7, as amended. Whenever \<open>process\<close> returns, it returns \<open>True\<close>. When no document
  content can be obtained (\<open>page.content\<close> raises), \<open>process\<close> raises, and the job layer
  records the failure. A \<open>page.goto\<close> that raises, the behaviour of the scroll probe and a
  fallback request that raises do not change the outcome of \<open>process\<close>. The job layer
  reports success exactly when \<open>__init__\<close> succeeds, \<open>process\<close> returns and the packaging
  succeeds: every exception becomes the failure outcome there, none reaches its caller.
\<close>

theorem process_outcome:
  "(process w b passes out d = Inr (r, d') \<longrightarrow> r)
   \<and> (b_start b \<and> b_wait b \<and> b_iframe b = Inr ((c, False), nb) \<and> b_cookies b \<and> b_content b = None
        \<longrightarrow> process w b passes out d = Inl BrowserError
          \<and> process_download w b passes out pk u dir fs = Error)
   \<and> process w (b\<lparr> b_goto := g \<rparr>) passes out d = process w b passes out d
   \<and> process w (b\<lparr> b_measured := m, b_page := pg \<rparr>) passes out d = process w b passes out d
   \<and> (\<not> not_fetchable ref \<and> urljoin w (base_or base (base_url d)) ref = Inr a
        \<and> resource_cache d a = None \<and> network_resources d a = None \<and> \<not> not_fetchable a
        \<and> session_get w (length (requests d)) a = HttpRaises
        \<longrightarrow> run_ops w d [Resolve ref base] = Inr (d\<lparr> requests := requests d @ [a] \<rparr>))
   \<and> (process_download w b passes out pk u dir fs = Complete
        \<longleftrightarrow> (\<exists>d0 d1. init u dir fs = Inr d0 \<and> process w b passes out d0 = Inr (True, d1) \<and> pk))"
proof (intro conjI impI)
  assume "process w b passes out d = Inr (r, d')"
  then show r by (rule process_returns_True)
next
  assume a: "b_start b \<and> b_wait b \<and> b_iframe b = Inr ((c, False), nb) \<and> b_cookies b \<and> b_content b = None"
  then have bp: "\<And>d. browser_phase b d = Inl BrowserError"
    by (simp add: browser_phase_no_content)
  then show "process w b passes out d = Inl BrowserError" by (simp add: process_def)
  from bp show "process_download w b passes out pk u dir fs = Error"
    by (simp add: process_download_def process_def split: sum.splits)
next
  show "process w (b\<lparr> b_goto := g \<rparr>) passes out d = process w b passes out d"
    by (simp add: process_def browser_phase_goto)
next
  show "process w (b\<lparr> b_measured := m, b_page := pg \<rparr>) passes out d = process w b passes out d"
    by (simp add: process_def browser_phase_probe)
next
  assume "\<not> not_fetchable ref \<and> urljoin w (base_or base (base_url d)) ref = Inr a
        \<and> resource_cache d a = None \<and> network_resources d a = None \<and> \<not> not_fetchable a
        \<and> session_get w (length (requests d)) a = HttpRaises"
  then have "get_resource w d ref base = Inr (Some ref, d\<lparr> requests := requests d @ [a] \<rparr>)"
    by (intro get_resource_fetch_fails) simp_all
  then show "run_ops w d [Resolve ref base] = Inr (d\<lparr> requests := requests d @ [a] \<rparr>)"
    by simp
next
  show "process_download w b passes out pk u dir fs = Complete
        \<longleftrightarrow> (\<exists>d0 d1. init u dir fs = Inr d0 \<and> process w b passes out d0 = Inr (True, d1) \<and> pk)"
    by (rule process_download_Complete)
qed

text \<open>
  The fatal case does not make \<open>process\<close> return \<open>False\<close>: with a browser whose
  \<open>page.content\<close> raises, \<open>process\<close> raises.
\<close>

theorem fatal_failure_raises:
  "process (python_world (\<lambda>n u. HttpRaises)) no_content_browser (\<lambda>html. []) [] example_job
     = Inl BrowserError"
  by (simp add: process_def browser_phase_def no_content_browser_def Let_def)

text \<open>
  Not every error of a resolution is caught: \<open>urljoin\<close> raises \<open>ValueError\<close> on the
  reference \<open>//[bad\<close>, outside any \<open>try\<close>, and \<open>process\<close> raises with it.
\<close>

lemma join_malformed: "py_urljoin ''https://a.test/p/q/index.html'' ''//[bad'' = Inl ValueError"
  by code_simp

lemma malformed_reference_raises:
  "process (python_world (\<lambda>n u. HttpRaises))
     (no_content_browser\<lparr> b_content := Some ''<img src=//[bad>'' \<rparr>)
     (\<lambda>html. [Resolve ''//[bad'' None]) ''<img src=//[bad>'' example_job
     = Inl ValueError"
  by (simp add: process_def browser_phase_def no_content_browser_def Let_def scroll_page_def
        get_resource_def not_fetchable_def python_world_def example_job_def join_malformed)

theorem process_outcome_witness:
  "process (python_world (\<lambda>n u. HttpRaises)) no_content_browser (\<lambda>html. []) [] example_job
     = Inl BrowserError
   \<and> process_download (python_world (\<lambda>n u. HttpRaises)) no_content_browser (\<lambda>html. []) [] True
        ''https://a.test/p/q/index.html'' [''downloads'', ''job''] [[''downloads''] \<mapsto> Dir] = Error
   \<and> run_ops (python_world (\<lambda>n u. HttpRaises)) example_job [Resolve ''../../img/y.png'' None]
        = Inr (example_job\<lparr> requests := [''https://a.test/img/y.png''] \<rparr>)
   \<and> process_download (python_world (\<lambda>n u. HttpRaises))
        (no_content_browser\<lparr> b_goto := False, b_measured := None, b_content := Some ''<html></html>'' \<rparr>)
        (\<lambda>html. [Resolve ''../../img/y.png'' None]) ''<html></html>'' True
        ''https://a.test/p/q/index.html'' [''downloads'', ''job''] [[''downloads''] \<mapsto> Dir] = Complete"
proof -
  let ?w = "python_world (\<lambda>n u. HttpRaises)"
  let ?good = "no_content_browser\<lparr> b_goto := False, b_measured := None, b_content := Some ''<html></html>'' \<rparr>"
  let ?fs = "[[''downloads''] \<mapsto> Dir]"
  note po = process_outcome [where w = ?w and passes = "\<lambda>html. []" and out = "[]"
      and b = no_content_browser and d = example_job and c = None and nb = None
      and pk = True and u = "''https://a.test/p/q/index.html''" and dir = "[''downloads'', ''job'']"
      and fs = ?fs and ref = "''../../img/y.png''" and base = None and a = "''https://a.test/img/y.png''"]
  have 1: "process ?w no_content_browser (\<lambda>html. []) [] example_job = Inl BrowserError
          \<and> process_download ?w no_content_browser (\<lambda>html. []) [] True
               ''https://a.test/p/q/index.html'' [''downloads'', ''job''] ?fs = Error"
    by (rule po [THEN conjunct2, THEN conjunct1, rule_format])
       (simp add: no_content_browser_def)
  have 2: "run_ops ?w example_job [Resolve ''../../img/y.png'' None]
        = Inr (example_job\<lparr> requests := requests example_job @ [''https://a.test/img/y.png''] \<rparr>)"
    by (rule po [THEN conjunct2, THEN conjunct2, THEN conjunct2, THEN conjunct2, THEN conjunct1, rule_format])
       (simp add: not_fetchable_def python_world_def example_job_def join_page_rel)
  have i: "init ''https://a.test/p/q/index.html'' [''downloads'', ''job''] ?fs = Inr example_job"
    by (auto simp: init_def makedirs_def example_job_def fun_eq_iff)
  have bp: "browser_phase ?good example_job = Inr (''<html></html>'', example_job)"
    by (simp add: browser_phase_def no_content_browser_def Let_def scroll_page_def example_job_def)
  have g: "get_resource ?w example_job ''../../img/y.png'' None
            = Inr (Some ''../../img/y.png'',
                   example_job\<lparr> requests := requests example_job @ [''https://a.test/img/y.png''] \<rparr>)"
    by (rule get_resource_fetch_fails [where a = "''https://a.test/img/y.png''"])
       (simp_all add: not_fetchable_def python_world_def example_job_def join_page_rel)
  have p: "\<exists>d1. process ?w ?good (\<lambda>html. [Resolve ''../../img/y.png'' None]) ''<html></html>'' example_job
             = Inr (True, d1)"
    by (simp add: process_def bp g)
  have 3: "process_download ?w ?good (\<lambda>html. [Resolve ''../../img/y.png'' None]) ''<html></html>'' True
        ''https://a.test/p/q/index.html'' [''downloads'', ''job''] ?fs = Complete"
    using process_outcome [where w = ?w and b = ?good
        and passes = "\<lambda>html. [Resolve ''../../img/y.png'' None]" and out = "''<html></html>''"
        and pk = True and u = "''https://a.test/p/q/index.html''" and dir = "[''downloads'', ''job'']"
        and fs = ?fs, THEN conjunct2, THEN conjunct2, THEN conjunct2, THEN conjunct2, THEN conjunct2]
      i p by blast
  from 1 2 3 show ?thesis by (simp add: example_job_def)
qed

end
